theory Spec2Isabelle
  imports Main
begin

section \<open>The whatapi client: cache, session and dispatcher\<close>

text \<open>
  The embedding follows \<^verbatim>\<open>whatapi.go\<close>. A method with receiver
  \<^verbatim>\<open>w *ClientStruct\<close> becomes a function that takes the client value and the
  world outside of it (the cookie jar behind the shared \<^verbatim>\<open>*http.Client\<close>, the
  SQL databases, the log of what was sent out) and returns the error (\<open>None\<close> is Go's
  \<^verbatim>\<open>nil\<close>), the client value and the world after the call.
  Everything the package calls but does not define (the transport, the SQL driver, the JSON
  codec, the URL parser, the clock) is a field of an environment record, so every theorem
  holds for every behaviour of those parts.
\<close>

subsection \<open>Errors\<close>

text \<open>
  One constructor for each error value the code can return. \<open>errRequestFailedLogin\<close>,
  \<open>errLoginFailed\<close> and \<open>errRequestFailedReason\<close> are named in the source;
  \<open>ErrNoRows\<close> is \<^verbatim>\<open>sql.ErrNoRows\<close>; \<open>RowsAffectedError\<close> is the
  \<^verbatim>\<open>fmt.Errorf("INSERT affected %d rows, expected 1", rows)\<close> of updateCache;
  the others wrap the message of a failing library call. \<open>NilPointerPanic\<close> is the
  run-time panic of Login when \<^verbatim>\<open>http.NewRequest\<close> has returned a nil request.
  \<open>APIError\<close> is the error of the spec's taxonomy for a failure envelope.
\<close>

datatype error =
    errRequestFailedLogin
  | errLoginFailed
  | errRequestFailedReason string
  | APIError string
  | ErrNoRows
  | SqlError string
  | RowsAffectedError int
  | TransportError string
  | ReadError string
  | UrlError string
  | BuildURLError string
  | JsonError string
  | NilPointerPanic

subsection \<open>HTTP, SQL and the outside world\<close>

type_synonym Values = "(string \<times> string list) list"

type_synonym cookie = "string \<times> string"

record request =
  Method :: string
  URL :: string
  Header :: "(string \<times> string) list"
  ReqBody :: string

text \<open>
  \<open>Body\<close> is what \<^verbatim>\<open>ioutil.ReadAll(resp.Body)\<close> gives (\<open>Inl\<close> a read error);
  \<open>RequestURL\<close> is \<^verbatim>\<open>resp.Request.URL.String()\<close>, the URL after redirects.
\<close>

record response =
  StatusCode :: int
  Status :: string
  Body :: "string + string"
  RequestURL :: string

type_synonym sqlDB = nat

datatype exec_stmt =
    ReplaceUrlcache string string
  | ReplaceCookies string string

datatype query_stmt =
    SelectUrlcache string
  | SelectCookie string

datatype event =
    HttpDo request
  | SqlExec sqlDB exec_stmt
  | SqlQuery sqlDB query_stmt

text \<open>
  The two tables of \<^verbatim>\<open>Cache\<close>. A row of \<open>urlcache\<close> is (requesturl, body, timestamp);
  the body column may hold NULL (\<open>None\<close>), which cachedResponse tests for. Times are
  nanoseconds since the epoch.
\<close>

record database =
  urlcache :: "(string \<times> string option \<times> int) list"
  cookies :: "(string \<times> string) list"

text \<open>
  What the driver does with a statement handed to \<^verbatim>\<open>db.Exec\<close>: it fails and changes
  nothing, or it runs the statement, and \<^verbatim>\<open>res.RowsAffected()\<close> then gives an error
  or a count.
\<close>

datatype exec_outcome =
    ExecError string
  | ExecDone "string + int"

text \<open>
  \<^verbatim>\<open>GenericResponse\<close> is declared in the source. Of \<^verbatim>\<open>AccountResponse\<close>, whose
  declaration is not in \<^verbatim>\<open>whatapi.go\<close>, the record has the four fields GetAccount
  reads: \<^verbatim>\<open>Status\<close>, \<^verbatim>\<open>Error\<close>, \<^verbatim>\<open>Response.AuthKey\<close> and
  \<^verbatim>\<open>Response.PassKey\<close>.
\<close>

record GenericResponse =
  gr_Status :: string
  gr_Error :: string

record AccountResponse =
  ar_Status :: string
  ar_Error :: string
  ar_AuthKey :: string
  ar_PassKey :: string

record 'j world =
  jar :: 'j
  dbs :: "sqlDB \<Rightarrow> database"
  trace :: "event list"

text \<open>
  The environment. Each field that depends on the outside world takes the trace of what
  has happened so far, so a server, a driver and a clock may answer differently each time.
  \<^verbatim>\<open>json.Unmarshal(data, v)\<close> writes into the value it is given and may have
  written part of it when it fails, so a decoder takes the old value and returns the new
  one beside the error; \<open>st\<close> of GetJSON is fresh and dropped on failure, so its decoder
  is a plain function. \<^verbatim>\<open>cookiejar.New(nil)\<close> returns no error for nil options,
  so it is the empty jar.
  \<open>buildURL\<close> is a helper of the package whose definition is not in \<^verbatim>\<open>whatapi.go\<close>.
\<close>

record 'j env =
  parse_ok :: "string \<Rightarrow> bool"
  buildURL :: "string \<Rightarrow> string \<Rightarrow> string \<Rightarrow> Values \<Rightarrow> string + string"
  values_Encode :: "Values \<Rightarrow> string"
  roundTrip :: "event list \<Rightarrow> request \<Rightarrow> 'j \<Rightarrow> (string + response) \<times> 'j"
  time_Now :: "event list \<Rightarrow> int"
  sql_exec :: "event list \<Rightarrow> exec_outcome"
  sql_query_error :: "event list \<Rightarrow> string option"
  cookiejar_New :: "'j"
  jar_SetCookies :: "string \<Rightarrow> cookie list \<Rightarrow> 'j \<Rightarrow> 'j"
  jar_Cookies :: "string \<Rightarrow> 'j \<Rightarrow> cookie list"
  marshal_cookies :: "cookie list \<Rightarrow> string + string"
  unmarshal_cookies :: "string \<Rightarrow> string + cookie list"
  unmarshal_GenericResponse :: "string \<Rightarrow> string + GenericResponse"
  unmarshal_AccountResponse :: "string \<Rightarrow> AccountResponse \<Rightarrow> string option \<times> AccountResponse"

subsection \<open>The client\<close>

text \<open>
  \<^verbatim>\<open>ClientStruct\<close>. \<open>baseURL\<close> is kept as its string form; the \<^verbatim>\<open>client\<close>
  field is a pointer to the one \<^verbatim>\<open>http.Client\<close>, whose jar is \<open>jar\<close> of the world;
  \<open>db\<close> is \<open>None\<close> for a nil handle; \<open>cacheFor\<close> is a Duration in nanoseconds.
\<close>

record ClientStruct =
  baseURL :: string
  userAgent :: string
  authkey :: string
  passkey :: string
  loggedIn :: bool
  db :: "sqlDB option"
  cacheFor :: int

subsection \<open>Library functions with a fixed meaning\<close>

definition HasPrefix :: "string \<Rightarrow> string \<Rightarrow> bool" where
  "HasPrefix s p = (take (length p) s = p)"

fun Contains :: "string \<Rightarrow> string \<Rightarrow> bool" where
  "Contains [] sub = (sub = [])"
| "Contains (c # s) sub = (HasPrefix (c # s) sub \<or> Contains s sub)"

text \<open>
  \<^verbatim>\<open>bytes.ReplaceAll\<close>: every non-overlapping instance of \<open>old\<close>, leftmost first.
  (For an empty \<open>old\<close> Go inserts \<open>new\<close> before every rune and at the end; the model
  does so before every byte. Both call sites pass a non-empty \<open>old\<close>.)
\<close>

function ReplaceAll :: "string \<Rightarrow> string \<Rightarrow> string \<Rightarrow> string" where
  "ReplaceAll [] old new = (if old = [] then new else [])"
| "ReplaceAll (c # s) old new =
     (if old = [] then new @ c # ReplaceAll s old new
      else if HasPrefix (c # s) old
        then new @ ReplaceAll (drop (length old) (c # s)) old new
      else c # ReplaceAll s old new)"
  by pat_completeness auto
termination
  by (relation "measure (\<lambda>(s, old, new). length s)") (auto simp: neq_Nil_conv)

text \<open>\<^verbatim>\<open>http.Header.Set\<close>: the value replaces whatever the key held.\<close>

definition Header_Set ::
  "string \<Rightarrow> string \<Rightarrow> (string \<times> string) list \<Rightarrow> (string \<times> string) list" where
  "Header_Set k v h = filter (\<lambda>kv. fst kv \<noteq> k) h @ [(k, v)]"

text \<open>
  \<^verbatim>\<open>http.NewRequest\<close> with a method the library accepts: it fails exactly when the
  URL does not parse.
\<close>

definition NewRequest :: "'j env \<Rightarrow> string \<Rightarrow> string \<Rightarrow> string \<Rightarrow> error + request" where
  "NewRequest env m u b =
     (if parse_ok env u
      then Inr \<lparr>Method = m, URL = u, Header = [], ReqBody = b\<rparr>
      else Inl (UrlError u))"

text \<open>
  \<^verbatim>\<open>w.client.Do\<close>: the transport answers with a response or fails, and may change
  the jar either way; the request is logged.
\<close>

definition client_Do :: "'j env \<Rightarrow> request \<Rightarrow> 'j world \<Rightarrow> (error + response) \<times> 'j world" where
  "client_Do env req world =
     (case roundTrip env (trace world) req (jar world) of
        (r, j) \<Rightarrow>
          (case r of Inl m \<Rightarrow> Inl (TransportError m) | Inr resp \<Rightarrow> Inr resp,
           world\<lparr>jar := j, trace := trace world @ [HttpDo req]\<rparr>))"

definition client_Get :: "'j env \<Rightarrow> string \<Rightarrow> 'j world \<Rightarrow> (error + response) \<times> 'j world" where
  "client_Get env u world =
     (case NewRequest env ''GET'' u [] of
        Inl e \<Rightarrow> (Inl e, world)
      | Inr req \<Rightarrow> client_Do env req world)"

text \<open>
  \<^verbatim>\<open>time.Since\<close>: the difference of two instants as a Duration, which saturates at
  the ends of the signed 64-bit range.
\<close>

definition maxDuration :: int where
  "maxDuration = 2 ^ 63 - 1"

definition minDuration :: int where
  "minDuration = - (2 ^ 63)"

definition time_Since :: "int \<Rightarrow> int \<Rightarrow> int" where
  "time_Since tnow t = max minDuration (min maxDuration (tnow - t))"

text \<open>SQLite's \<^verbatim>\<open>datetime('now')\<close> has a resolution of one second.\<close>

definition datetime_now :: "int \<Rightarrow> int" where
  "datetime_now tnow = (tnow div 1000000000) * 1000000000"

text \<open>
  The statements of the source on the tables of \<^verbatim>\<open>Cache\<close>, whose first column is
  the primary key: REPLACE deletes the rows with the key and inserts the new row; the
  SELECTs with \<^verbatim>\<open>QueryRow\<close> give the first row with the key.
\<close>

fun apply_stmt :: "int \<Rightarrow> exec_stmt \<Rightarrow> database \<Rightarrow> database" where
  "apply_stmt tnow (ReplaceUrlcache k b) d =
     d\<lparr>urlcache := filter (\<lambda>r. fst r \<noteq> k) (urlcache d) @ [(k, Some b, datetime_now tnow)]\<rparr>"
| "apply_stmt tnow (ReplaceCookies u c) d =
     d\<lparr>cookies := filter (\<lambda>r. fst r \<noteq> u) (cookies d) @ [(u, c)]\<rparr>"

definition db_Exec ::
  "'j env \<Rightarrow> sqlDB \<Rightarrow> exec_stmt \<Rightarrow> 'j world \<Rightarrow> (error + (string + int)) \<times> 'j world" where
  "db_Exec env d stmt world =
     (case sql_exec env (trace world) of
        ExecError m \<Rightarrow> (Inl (SqlError m), world\<lparr>trace := trace world @ [SqlExec d stmt]\<rparr>)
      | ExecDone res \<Rightarrow>
          (Inr res,
           world\<lparr>dbs := (dbs world)(d := apply_stmt (time_Now env (trace world)) stmt (dbs world d)),
                 trace := trace world @ [SqlExec d stmt]\<rparr>))"

definition query_urlcache ::
  "'j env \<Rightarrow> sqlDB \<Rightarrow> string \<Rightarrow> 'j world \<Rightarrow> (error + (string option \<times> int)) \<times> 'j world" where
  "query_urlcache env d k world =
     (case sql_query_error env (trace world) of
        Some m \<Rightarrow> Inl (SqlError m)
      | None \<Rightarrow>
          (case find (\<lambda>r. fst r = k) (urlcache (dbs world d)) of
             None \<Rightarrow> Inl ErrNoRows
           | Some r \<Rightarrow> Inr (snd r)),
      world\<lparr>trace := trace world @ [SqlQuery d (SelectUrlcache k)]\<rparr>)"

definition query_cookie ::
  "'j env \<Rightarrow> sqlDB \<Rightarrow> string \<Rightarrow> 'j world \<Rightarrow> (error + string) \<times> 'j world" where
  "query_cookie env d u world =
     (case sql_query_error env (trace world) of
        Some m \<Rightarrow> Inl (SqlError m)
      | None \<Rightarrow>
          (case find (\<lambda>r. fst r = u) (cookies (dbs world d)) of
             None \<Rightarrow> Inl ErrNoRows
           | Some r \<Rightarrow> Inr (snd r)),
      world\<lparr>trace := trace world @ [SqlQuery d (SelectCookie u)]\<rparr>)"

subsection \<open>The cache store\<close>

text \<open>\<^verbatim>\<open>doRequest\<close>, lines 275-291.\<close>

definition doRequest ::
  "'j env \<Rightarrow> ClientStruct \<Rightarrow> request \<Rightarrow> 'j world \<Rightarrow> (error + string) \<times> 'j world" where
  "doRequest env w req world =
     (case client_Do env (req\<lparr>Header := Header_Set ''User-Agent'' (userAgent w) (Header req)\<rparr>) world of
        (Inl e, world') \<Rightarrow> (Inl e, world')
      | (Inr resp, world') \<Rightarrow>
          if StatusCode resp \<noteq> 200
          then (Inl (errRequestFailedReason (''Status Code '' @ Status resp)), world')
          else (case Body resp of
                  Inl m \<Rightarrow> (Inl (ReadError m), world')
                | Inr body \<Rightarrow> (Inr body, world')))"

text \<open>\<^verbatim>\<open>updateCache\<close>, lines 293-313.\<close>

definition updateCache ::
  "'j env \<Rightarrow> ClientStruct \<Rightarrow> string \<Rightarrow> string \<Rightarrow> 'j world \<Rightarrow> error option \<times> 'j world" where
  "updateCache env w requestURL body world =
     (case db w of
        None \<Rightarrow> (None, world)
      | Some d \<Rightarrow>
          (case db_Exec env d (ReplaceUrlcache requestURL body) world of
             (Inl e, world') \<Rightarrow> (Some e, world')
           | (Inr res, world') \<Rightarrow>
               (case res of
                  Inl m \<Rightarrow> (Some (SqlError m), world')
                | Inr rows \<Rightarrow>
                    if rows \<noteq> 1 then (Some (RowsAffectedError rows), world')
                    else (None, world'))))"

text \<open>
  \<^verbatim>\<open>cachedResponse\<close>, lines 315-331. The result is Go's pair: the body
  (\<open>None\<close> is nil) and the error.
\<close>

definition cachedResponse ::
  "'j env \<Rightarrow> ClientStruct \<Rightarrow> string \<Rightarrow> 'j world \<Rightarrow> (string option \<times> error option) \<times> 'j world" where
  "cachedResponse env w requestURL world =
     (case db w of
        None \<Rightarrow> ((None, None), world)
      | Some d \<Rightarrow>
          (case query_urlcache env d requestURL world of
             (Inl e, world') \<Rightarrow> ((None, Some e), world')
           | (Inr (body, timestamp), world') \<Rightarrow>
               if (case body of None \<Rightarrow> True | Some b \<Rightarrow> length b = 0)
                  \<or> time_Since (time_Now env (trace world')) timestamp > cacheFor w
               then ((None, Some ErrNoRows), world')
               else ((body, None), world')))"

subsection \<open>The request dispatcher\<close>

text \<open>
  Modelled from the spec: \<^verbatim>\<open>checkResponseStatus\<close> is called by GetJSON and
  GetAccount, and its definition is not in \<^verbatim>\<open>whatapi.go\<close>. The spec (4.3, step 3):
  "If status signals failure, return APIError with the embedded error message"; the failure
  status it shows (section 8) is \<^verbatim>\<open>failure\<close>.
\<close>

definition checkResponseStatus :: "string \<Rightarrow> string \<Rightarrow> error option" where
  "checkResponseStatus status err = (if status = ''failure'' then Some (APIError err) else None)"

text \<open>
  The dynamic type of \<^verbatim>\<open>responseObj\<close>, as far as the type switch of GetJSON tells
  types apart.
\<close>

datatype shape = ArtistResponse | TopTenTorrentsResponse | OtherResponse

definition extendedArtists_false :: string where
  \<open>extendedArtists_false = ''"extendedArtists":false''\<close>

definition extendedArtists_object :: string where
  \<open>extendedArtists_object = ''"extendedArtists":{}''\<close>

definition artist_false :: string where
  \<open>artist_false = ''"artist":false''\<close>

definition artist_empty :: string where
  \<open>artist_empty = ''"artist":""''\<close>

text \<open>A nil byte slice is read as an empty one.\<close>

definition bytes_of :: "string option \<Rightarrow> string" where
  "bytes_of b = (case b of None \<Rightarrow> [] | Some s \<Rightarrow> s)"

text \<open>
  GetJSON, lines 339-356: the body comes from the cache, or else from the network, and
  then goes into the cache.
\<close>

definition fetchBody ::
  "'j env \<Rightarrow> ClientStruct \<Rightarrow> string \<Rightarrow> 'j world \<Rightarrow> (error + string) \<times> 'j world" where
  "fetchBody env w requestURL world =
     (case cachedResponse env w requestURL world of
        ((body, err), world1) \<Rightarrow>
          if db w = None \<or> err = Some ErrNoRows then
            (case NewRequest env ''GET'' requestURL [] of
               Inl e \<Rightarrow> (Inl e, world1)
             | Inr req \<Rightarrow>
                 (case doRequest env w req world1 of
                    (Inl e, world2) \<Rightarrow> (Inl e, world2)
                  | (Inr fetched, world2) \<Rightarrow>
                      (case updateCache env w requestURL fetched world2 of
                         (Some e, world3) \<Rightarrow> (Inl e, world3)
                       | (None, world3) \<Rightarrow> (Inr fetched, world3))))
          else (case err of
                  Some e \<Rightarrow> (Inl e, world1)
                | None \<Rightarrow> (Inr (bytes_of body), world1)))"

text \<open>
  The last line of GetJSON, \<^verbatim>\<open>return json.Unmarshal(body, responseObj)\<close>; \<open>unm\<close> is
  \<^verbatim>\<open>json.Unmarshal\<close> at the type of the target.
\<close>

definition unmarshal_into ::
  "(string \<Rightarrow> 'o \<Rightarrow> string option \<times> 'o) \<Rightarrow> string \<Rightarrow> 'o \<Rightarrow> error option \<times> 'o" where
  "unmarshal_into unm body obj =
     (case unm body obj of
        (None, obj') \<Rightarrow> (None, obj')
      | (Some m, obj') \<Rightarrow> (Some (JsonError m), obj'))"

text \<open>GetJSON, lines 358-386: the envelope, then the target with its two corrections.\<close>

definition decodeBody ::
  "'j env \<Rightarrow> shape \<Rightarrow> (string \<Rightarrow> 'o \<Rightarrow> string option \<times> 'o) \<Rightarrow> string \<Rightarrow> 'o \<Rightarrow> error option \<times> 'o" where
  "decodeBody env shp unm body obj =
     (case unmarshal_GenericResponse env body of
        Inl m \<Rightarrow> (Some (JsonError m), obj)
      | Inr st \<Rightarrow>
          (case checkResponseStatus (gr_Status st) (gr_Error st) of
             Some e \<Rightarrow> (Some e, obj)
           | None \<Rightarrow>
               (case shp of
                  ArtistResponse \<Rightarrow>
                    (case unm body obj of
                       (err, ro) \<Rightarrow>
                         unmarshal_into unm
                           (if err \<noteq> None
                            then ReplaceAll body extendedArtists_false extendedArtists_object
                            else body) ro)
                | TopTenTorrentsResponse \<Rightarrow>
                    (case unm body obj of
                       (err, ro) \<Rightarrow>
                         unmarshal_into unm
                           (if err \<noteq> None
                            then ReplaceAll body artist_false artist_empty
                            else body) ro)
                | OtherResponse \<Rightarrow> unmarshal_into unm body obj)))"

text \<open>\<^verbatim>\<open>GetJSON\<close>, lines 334-387. It returns the error and the target as written.\<close>

definition GetJSON ::
  "'j env \<Rightarrow> ClientStruct \<Rightarrow> string \<Rightarrow> shape \<Rightarrow> (string \<Rightarrow> 'o \<Rightarrow> string option \<times> 'o) \<Rightarrow> 'o \<Rightarrow>
     'j world \<Rightarrow> (error option \<times> 'o) \<times> 'j world" where
  "GetJSON env w requestURL shp unm obj world =
     (if \<not> loggedIn w then ((Some errRequestFailedLogin, obj), world)
      else (case fetchBody env w requestURL world of
              (Inl e, world') \<Rightarrow> ((Some e, obj), world')
            | (Inr body, world') \<Rightarrow> (decodeBody env shp unm body obj, world')))"

subsection \<open>Cookie jar persistence\<close>

text \<open>\<^verbatim>\<open>getCookies\<close>, lines 432-453.\<close>

definition getCookies :: "'j env \<Rightarrow> ClientStruct \<Rightarrow> 'j world \<Rightarrow> error option \<times> 'j world" where
  "getCookies env w world =
     (case db w of
        None \<Rightarrow> (None, world)
      | Some d \<Rightarrow>
          (case query_cookie env d (baseURL w) world of
             (Inl e, world') \<Rightarrow> (if e = ErrNoRows then None else Some e, world')
           | (Inr c, world') \<Rightarrow>
               (case unmarshal_cookies env c of
                  Inl m \<Rightarrow> (Some (JsonError m), world')
                | Inr cs \<Rightarrow>
                    (None, world'\<lparr>jar := jar_SetCookies env (baseURL w) cs (jar world')\<rparr>))))"

text \<open>\<^verbatim>\<open>saveCookies\<close>, lines 463-476.\<close>

definition saveCookies :: "'j env \<Rightarrow> ClientStruct \<Rightarrow> 'j world \<Rightarrow> error option \<times> 'j world" where
  "saveCookies env w world =
     (case db w of
        None \<Rightarrow> (None, world)
      | Some d \<Rightarrow>
          (case marshal_cookies env (jar_Cookies env (baseURL w) (jar world)) of
             Inl m \<Rightarrow> (Some (JsonError m), world)
           | Inr c \<Rightarrow>
               (case db_Exec env d (ReplaceCookies (baseURL w) c) world of
                  (Inl e, world') \<Rightarrow> (Some e, world')
                | (Inr res, world') \<Rightarrow> (None, world'))))"

text \<open>\<^verbatim>\<open>clearCookies\<close>, lines 455-461.\<close>

definition clearCookies :: "'j env \<Rightarrow> ClientStruct \<Rightarrow> 'j world \<Rightarrow> error option \<times> 'j world" where
  "clearCookies env w world = saveCookies env w (world\<lparr>jar := cookiejar_New env\<rparr>)"

subsection \<open>The session manager\<close>

definition AccountResponse_zero :: AccountResponse where
  "AccountResponse_zero = \<lparr>ar_Status = [], ar_Error = [], ar_AuthKey = [], ar_PassKey = []\<rparr>"

text \<open>\<^verbatim>\<open>GetAccount\<close>, lines 539-559.\<close>

definition GetAccount ::
  "'j env \<Rightarrow> ClientStruct \<Rightarrow> 'j world \<Rightarrow> error option \<times> ClientStruct \<times> 'j world" where
  "GetAccount env w world =
     (case buildURL env (baseURL w) ''ajax.php'' ''index'' [] of
        Inl m \<Rightarrow> (Some (BuildURLError m), w, world)
      | Inr requestURL \<Rightarrow>
          (case GetJSON env (w\<lparr>db := None, loggedIn := True\<rparr>) requestURL OtherResponse
                  (unmarshal_AccountResponse env) AccountResponse_zero world of
             ((err, account), world') \<Rightarrow>
               (let w' = w\<lparr>db := None, loggedIn := True\<rparr>\<lparr>db := db w, loggedIn := loggedIn w\<rparr> in
                case err of
                  Some e \<Rightarrow> (Some e, w', world')
                | None \<Rightarrow>
                    (case checkResponseStatus (ar_Status account) (ar_Error account) of
                       Some e \<Rightarrow> (Some e, w', world')
                     | None \<Rightarrow>
                         (None,
                          w'\<lparr>authkey := ar_AuthKey account, passkey := ar_PassKey account\<rparr>,
                          world')))))"

text \<open>
  Login, lines 497-520: the credentials are posted. The error of
  \<^verbatim>\<open>http.NewRequest\<close> is overwritten unread, so a nil request reaches
  \<^verbatim>\<open>req.Header.Set\<close>, which panics.
\<close>

definition Login_post ::
  "'j env \<Rightarrow> string \<Rightarrow> string \<Rightarrow> ClientStruct \<Rightarrow> 'j world \<Rightarrow>
     error option \<times> ClientStruct \<times> 'j world" where
  "Login_post env username password w world =
     (case NewRequest env ''POST'' (baseURL w @ ''login.php'')
             (values_Encode env [(''username'', [username]), (''password'', [password])]) of
        Inl e \<Rightarrow> (Some NilPointerPanic, w, world)
      | Inr req \<Rightarrow>
          (case client_Do env
                  (req\<lparr>Header :=
                         Header_Set ''User-Agent'' (userAgent w)
                           (Header_Set ''Content-Type'' ''application/x-www-form-urlencoded''
                              (Header req))\<rparr>) world of
             (Inl e, world1) \<Rightarrow> (Some e, w, world1)
           | (Inr resp, world1) \<Rightarrow>
               if \<not> Contains (RequestURL resp) ''index'' then (Some errLoginFailed, w, world1)
               else (case GetAccount env (w\<lparr>loggedIn := True\<rparr>) world1 of
                       (Some e, w2, world2) \<Rightarrow> (Some e, w2, world2)
                     | (None, w2, world2) \<Rightarrow>
                         (case saveCookies env w2 world2 of
                            (err, world3) \<Rightarrow> (err, w2, world3)))))"

text \<open>\<^verbatim>\<open>Login\<close>, lines 479-521.\<close>

definition Login ::
  "'j env \<Rightarrow> string \<Rightarrow> string \<Rightarrow> ClientStruct \<Rightarrow> 'j world \<Rightarrow>
     error option \<times> ClientStruct \<times> 'j world" where
  "Login env username password w world =
     (case db w of
        None \<Rightarrow> Login_post env username password w world
      | Some d \<Rightarrow>
          (case getCookies env w world of
             (Some e, world1) \<Rightarrow> (Some e, w, world1)
           | (None, world1) \<Rightarrow>
               (case GetAccount env w world1 of
                  (None, w1, world2) \<Rightarrow> (None, w1\<lparr>loggedIn := True\<rparr>, world2)
                | (Some e, w1, world2) \<Rightarrow>
                    (case clearCookies env w1 world2 of
                       (Some e', world3) \<Rightarrow> (Some e', w1, world3)
                     | (None, world3) \<Rightarrow> Login_post env username password w1 world3))))"

text \<open>\<^verbatim>\<open>Logout\<close>, lines 524-536.\<close>

definition Logout ::
  "'j env \<Rightarrow> ClientStruct \<Rightarrow> 'j world \<Rightarrow> error option \<times> ClientStruct \<times> 'j world" where
  "Logout env w world =
     (case buildURL env (baseURL w) ''logout.php'' [] [(''auth'', [authkey w])] of
        Inl m \<Rightarrow> (Some (BuildURLError m), w, world)
      | Inr requestURL \<Rightarrow>
          (case client_Get env requestURL world of
             (Inl e, world') \<Rightarrow> (Some e, w, world')
           | (Inr resp, world') \<Rightarrow>
               (None, w\<lparr>loggedIn := False, authkey := [], passkey := []\<rparr>, world')))"

subsection \<open>Notions used in the statements\<close>

text \<open>
  The GET request doRequest sends for a URL; the world right after the cache lookup; the age
  of a row as cachedResponse measures it, at the time of that lookup.
\<close>

definition get_request :: "ClientStruct \<Rightarrow> string \<Rightarrow> request" where
  "get_request w u =
     \<lparr>Method = ''GET'', URL = u, Header = [(''User-Agent'', userAgent w)], ReqBody = []\<rparr>"

definition after_query :: "'j world \<Rightarrow> sqlDB \<Rightarrow> string \<Rightarrow> 'j world" where
  "after_query world d k = world\<lparr>trace := trace world @ [SqlQuery d (SelectUrlcache k)]\<rparr>"

definition row_age :: "'j env \<Rightarrow> 'j world \<Rightarrow> sqlDB \<Rightarrow> string \<Rightarrow> int \<Rightarrow> int" where
  "row_age env world d k ts = time_Since (time_Now env (trace (after_query world d k))) ts"

text \<open>
  A successful account probe, in the words of the spec: the probe URL is built and parses,
  the GET with the user agent comes back with status 200 and a body that decodes into an
  account, whose two keys go into the client; the request is the one thing added to the
  trace. Then: the request Login posts; whether a POST was sent between two worlds; whether
  the store's cookie table holds exactly the serialised jar for the base URL; the world
  after getCookies has loaded a record.
\<close>

definition account_probe ::
  "'j env \<Rightarrow> ClientStruct \<Rightarrow> 'j world \<Rightarrow> ClientStruct \<Rightarrow> 'j world \<Rightarrow> bool" where
  "account_probe env w world w' world' =
     (\<exists>u resp body acct.
        buildURL env (baseURL w) ''ajax.php'' ''index'' [] = Inr u
        \<and> parse_ok env u
        \<and> fst (roundTrip env (trace world) (get_request w u) (jar world)) = Inr resp
        \<and> StatusCode resp = 200
        \<and> Body resp = Inr body
        \<and> unmarshal_AccountResponse env body AccountResponse_zero = (None, acct)
        \<and> w' = w\<lparr>authkey := ar_AuthKey acct, passkey := ar_PassKey acct\<rparr>
        \<and> world' = world\<lparr>jar := snd (roundTrip env (trace world) (get_request w u) (jar world)),
                          trace := trace world @ [HttpDo (get_request w u)]\<rparr>)"

definition login_request :: "'j env \<Rightarrow> ClientStruct \<Rightarrow> string \<Rightarrow> string \<Rightarrow> request" where
  "login_request env w username password =
     \<lparr>Method = ''POST'', URL = baseURL w @ ''login.php'',
      Header = [(''Content-Type'', ''application/x-www-form-urlencoded''),
                (''User-Agent'', userAgent w)],
      ReqBody = values_Encode env [(''username'', [username]), (''password'', [password])]\<rparr>"

definition is_post :: "event \<Rightarrow> bool" where
  "is_post e = (case e of HttpDo r \<Rightarrow> Method r = ''POST'' | _ \<Rightarrow> False)"

definition credentials_posted :: "'j world \<Rightarrow> 'j world \<Rightarrow> bool" where
  "credentials_posted world world' =
     list_ex is_post (drop (length (trace world)) (trace world'))"

definition jar_persisted :: "'j env \<Rightarrow> ClientStruct \<Rightarrow> 'j world \<Rightarrow> sqlDB \<Rightarrow> bool" where
  "jar_persisted env w world d =
     (case marshal_cookies env (jar_Cookies env (baseURL w) (jar world)) of
        Inl m \<Rightarrow> False
      | Inr c \<Rightarrow> filter (\<lambda>r. fst r = baseURL w) (cookies (dbs world d)) = [(baseURL w, c)])"

definition after_load :: "'j env \<Rightarrow> ClientStruct \<Rightarrow> sqlDB \<Rightarrow> cookie list \<Rightarrow> 'j world \<Rightarrow> 'j world" where
  "after_load env w d cs world =
     world\<lparr>jar := jar_SetCookies env (baseURL w) cs (jar world),
           trace := trace world @ [SqlQuery d (SelectCookie (baseURL w))]\<rparr>"

section \<open>A concrete environment\<close>

text \<open>
  A small tracker to run the client against: it accepts one account, keeps the session in
  one cookie, and answers the account probe only to that session. The theorems below are
  instantiated with it.
\<close>

definition demo_base :: string where
  "demo_base = ''https://tracker.example/''"

definition demo_account_body :: string where
  \<open>demo_account_body = ''{"status":"success","response":{"authkey":"k1","passkey":"p1"}}''\<close>

definition demo_failure_body :: string where
  \<open>demo_failure_body = ''{"status":"failure","error":"bad id parameter"}''\<close>

definition demo_artist_body :: string where
  \<open>demo_artist_body = ''{"status":"success","response":{"id":7,"extendedArtists":false}}''\<close>

definition demo_buildURL :: "string \<Rightarrow> string \<Rightarrow> string \<Rightarrow> Values \<Rightarrow> string + string" where
  "demo_buildURL base path action params =
     Inr (base @ path @ ''?action='' @ action
          @ concat (map (\<lambda>kv. ''&'' @ fst kv @ ''='' @ concat (snd kv)) params))"

definition demo_Encode :: "Values \<Rightarrow> string" where
  "demo_Encode params = concat (map (\<lambda>kv. fst kv @ ''='' @ concat (snd kv) @ ''&'') params)"

definition demo_ok :: "string \<Rightarrow> string \<Rightarrow> response" where
  "demo_ok body u = \<lparr>StatusCode = 200, Status = ''200 OK'', Body = Inr body, RequestURL = u\<rparr>"

definition demo_server :: "event list \<Rightarrow> request \<Rightarrow> cookie list \<Rightarrow> (string + response) \<times> cookie list" where
  "demo_server tr req j =
     (if Method req = ''POST'' then
        (if ReqBody req = ''username=alice&password=secret&''
         then (Inr (demo_ok ''<html>'' (demo_base @ ''index.php'')), [(''session'', ''s1'')])
         else (Inr (demo_ok ''<html>'' (URL req)), j))
      else if URL req = demo_base @ ''ajax.php?action=index'' then
        (if (''session'', ''s1'') \<in> set j
         then (Inr (demo_ok demo_account_body (URL req)), j)
         else (Inr (demo_ok ''<html>'' (demo_base @ ''login.php'')), j))
      else if URL req = demo_base @ ''ajax.php?action=artist&id=7'' then
        (Inr (demo_ok demo_artist_body (URL req)), j)
      else (Inr (demo_ok demo_failure_body (URL req)), j))"

definition demo_unmarshal_GenericResponse :: "string \<Rightarrow> string + GenericResponse" where
  \<open>demo_unmarshal_GenericResponse body =
     (if body = demo_failure_body
      then Inr \<lparr>gr_Status = ''failure'', gr_Error = ''bad id parameter''\<rparr>
      else if HasPrefix body ''{"status":"success"''
      then Inr \<lparr>gr_Status = ''success'', gr_Error = []\<rparr>
      else Inl ''invalid character'')\<close>

definition demo_unmarshal_AccountResponse ::
  "string \<Rightarrow> AccountResponse \<Rightarrow> string option \<times> AccountResponse" where
  "demo_unmarshal_AccountResponse body acct =
     (if body = demo_account_body
      then (None, \<lparr>ar_Status = ''success'', ar_Error = [], ar_AuthKey = ''k1'', ar_PassKey = ''p1''\<rparr>)
      else (Some ''invalid character'', acct))"

definition demo_env :: "cookie list env" where
  "demo_env =
     \<lparr>parse_ok = (\<lambda>u. u \<noteq> []),
      buildURL = demo_buildURL,
      values_Encode = demo_Encode,
      roundTrip = demo_server,
      time_Now = (\<lambda>tr. 1000000000 * (100 + int (length tr))),
      sql_exec = (\<lambda>tr. ExecDone (Inr 1)),
      sql_query_error = (\<lambda>tr. None),
      cookiejar_New = [],
      jar_SetCookies = (\<lambda>u cs j. cs @ j),
      jar_Cookies = (\<lambda>u j. j),
      marshal_cookies = (\<lambda>cs. Inr (concat (map (\<lambda>c. fst c @ ''='' @ snd c @ '';'') cs))),
      unmarshal_cookies =
        (\<lambda>c. if c = [] then Inr []
              else if c = ''session=s1;'' then Inr [(''session'', ''s1'')]
              else if c = ''session=s0;'' then Inr [(''session'', ''s0'')]
              else Inl ''invalid character''),
      unmarshal_GenericResponse = demo_unmarshal_GenericResponse,
      unmarshal_AccountResponse = demo_unmarshal_AccountResponse\<rparr>"

definition demo_client :: ClientStruct where
  "demo_client =
     \<lparr>baseURL = demo_base, userAgent = ''whatapi'', authkey = [], passkey = [],
      loggedIn = False, db = None, cacheFor = 60000000000\<rparr>"

definition demo_world :: "cookie list world" where
  "demo_world = \<lparr>jar = [], dbs = (\<lambda>d. \<lparr>urlcache = [], cookies = []\<rparr>), trace = []\<rparr>"

definition demo_unmarshal_artist :: "string \<Rightarrow> string \<Rightarrow> string option \<times> string" where
  "demo_unmarshal_artist body obj =
     (if Contains body extendedArtists_false
      then (Some ''json: cannot unmarshal bool into Go struct field'', obj)
      else (None, body))"

definition demo_artist_fixed :: string where
  \<open>demo_artist_fixed = ''{"status":"success","response":{"id":7,"extendedArtists":{}}}''\<close>

definition demo_cached :: ClientStruct where
  "demo_cached = demo_client\<lparr>loggedIn := True, db := Some 0\<rparr>"

definition demo_artist_url :: string where
  "demo_artist_url = demo_base @ ''ajax.php?action=artist&id=7''"

definition demo_world_empty_row :: "cookie list world" where
  "demo_world_empty_row =
     demo_world\<lparr>dbs := (\<lambda>d. \<lparr>urlcache = [(demo_artist_url, Some [], 100000000000)], cookies = []\<rparr>)\<rparr>"

definition demo_world_live_row :: "cookie list world" where
  "demo_world_live_row =
     demo_world\<lparr>dbs := (\<lambda>d. \<lparr>urlcache = [(demo_artist_url, Some demo_artist_fixed, 100000000000)],
                              cookies = []\<rparr>)\<rparr>"

definition demo_env_two_rows :: "cookie list env" where
  "demo_env_two_rows = demo_env\<lparr>sql_exec := (\<lambda>tr. ExecDone (Inr 2))\<rparr>"

definition demo_stored :: ClientStruct where
  "demo_stored = demo_client\<lparr>db := Some 0\<rparr>"

definition demo_world_session :: "cookie list world" where
  "demo_world_session = demo_world\<lparr>jar := [(''session'', ''s1'')]\<rparr>"

definition demo_probe :: request where
  "demo_probe = get_request demo_client (demo_base @ ''ajax.php?action=index'')"

definition demo_env_offline :: "cookie list env" where
  "demo_env_offline = demo_env\<lparr>roundTrip := (\<lambda>tr req j. (Inl ''connection refused'', j))\<rparr>"

definition demo_session :: ClientStruct where
  "demo_session = demo_client\<lparr>authkey := ''k1'', passkey := ''p1'', loggedIn := True\<rparr>"

definition demo_env_store_down :: "cookie list env" where
  "demo_env_store_down = demo_env\<lparr>sql_exec := (\<lambda>tr. ExecError ''attempt to write a readonly database'')\<rparr>"

definition demo_world_stale :: "cookie list world" where
  "demo_world_stale =
     demo_world\<lparr>dbs := (\<lambda>d. \<lparr>urlcache = [], cookies = [(demo_base, ''session=s0;'')]\<rparr>)\<rparr>"

definition demo_world_probed :: "cookie list world" where
  "demo_world_probed =
     demo_world_stale\<lparr>jar := [(''session'', ''s0'')],
                      trace := [SqlQuery 0 (SelectCookie demo_base), HttpDo demo_probe]\<rparr>"

definition demo_world_cleared :: "cookie list world" where
  "demo_world_cleared =
     \<lparr>jar = [],
      dbs = (dbs demo_world_stale)(0 := \<lparr>urlcache = [], cookies = [(demo_base, [])]\<rparr>),
      trace = [SqlQuery 0 (SelectCookie demo_base), HttpDo demo_probe,
               SqlExec 0 (ReplaceCookies demo_base [])]\<rparr>"

section \<open>Properties\<close>

subsection \<open>What a request leaves behind\<close>

lemma client_Do_world:
  "client_Do env req world = (r, world') \<Longrightarrow>
     dbs world' = dbs world \<and> trace world' = trace world @ [HttpDo req]"
  by (auto simp: client_Do_def split: prod.splits)


lemma doRequest_world:
  "doRequest env w req world = (r, world') \<Longrightarrow>
     dbs world' = dbs world
     \<and> trace world' =
         trace world @ [HttpDo (req\<lparr>Header := Header_Set ''User-Agent'' (userAgent w) (Header req)\<rparr>)]"
  by (auto simp: doRequest_def split: prod.splits sum.splits if_splits dest: client_Do_world)


lemma fetchBody_nodb:
  "db w = None \<Longrightarrow> fetchBody env w requestURL world =
     (case NewRequest env ''GET'' requestURL [] of
        Inl e \<Rightarrow> (Inl e, world)
      | Inr req \<Rightarrow> doRequest env w req world)"
  by (auto simp: fetchBody_def cachedResponse_def updateCache_def split: sum.splits prod.splits)


lemma fetchBody_nodb_trace:
  "db w = None \<Longrightarrow> parse_ok env requestURL \<Longrightarrow>
     trace (snd (fetchBody env w requestURL world)) =
       trace world @ [HttpDo \<lparr>Method = ''GET'', URL = requestURL,
                              Header = [(''User-Agent'', userAgent w)], ReqBody = []\<rparr>]"
  using doRequest_world [of env w "\<lparr>Method = ''GET'', URL = requestURL, Header = [], ReqBody = []\<rparr>" world]
  by (cases "doRequest env w \<lparr>Method = ''GET'', URL = requestURL, Header = [], ReqBody = []\<rparr> world")
     (simp add: fetchBody_nodb NewRequest_def Header_Set_def)

lemma fetchBody_nodb_dbs:
  "db w = None \<Longrightarrow> dbs (snd (fetchBody env w requestURL world)) = dbs world"
  using doRequest_world [of env w "\<lparr>Method = ''GET'', URL = requestURL, Header = [], ReqBody = []\<rparr>" world]
  by (cases "doRequest env w \<lparr>Method = ''GET'', URL = requestURL, Header = [], ReqBody = []\<rparr> world")
     (simp add: fetchBody_nodb NewRequest_def)


lemma GetJSON_world:
  "loggedIn w \<Longrightarrow> snd (GetJSON env w requestURL shp unm obj world) = snd (fetchBody env w requestURL world)"
  by (auto simp: GetJSON_def split: prod.splits sum.splits)


lemma GetAccount_world:
  "buildURL env (baseURL w) ''ajax.php'' ''index'' [] = Inr u \<Longrightarrow>
     snd (snd (GetAccount env w world)) = snd (fetchBody env (w\<lparr>db := None, loggedIn := True\<rparr>) u world)"
  using GetJSON_world [of "w\<lparr>db := None, loggedIn := True\<rparr>" env u OtherResponse
      "unmarshal_AccountResponse env" AccountResponse_zero world]
  by (auto simp: GetAccount_def Let_def split: prod.splits option.splits)

lemma GetAccount_build_error:
  "buildURL env (baseURL w) ''ajax.php'' ''index'' [] = Inl m \<Longrightarrow>
     GetAccount env w world = (Some (BuildURLError m), w, world)"
  by (simp add: GetAccount_def)




lemma GetAccount_dbs:
  "dbs (snd (snd (GetAccount env w world))) = dbs world"
proof (cases "buildURL env (baseURL w) ''ajax.php'' ''index'' []")
  case (Inl m)
  then show ?thesis by (simp add: GetAccount_build_error)
next
  case (Inr u)
  then show ?thesis
    using fetchBody_nodb_dbs [of "w\<lparr>db := None, loggedIn := True\<rparr>" env u world]
    by (simp add: GetAccount_world)
qed

lemma GetAccount_client:
  "GetAccount env w world = (err, w', world') \<Longrightarrow>
     (err \<noteq> None \<longrightarrow> w' = w)
     \<and> (err = None \<longrightarrow>
          (\<exists>u body. buildURL env (baseURL w) ''ajax.php'' ''index'' [] = Inr u
             \<and> fst (fetchBody env (w\<lparr>db := None, loggedIn := True\<rparr>) u world) = Inr body
             \<and> w' = w\<lparr>authkey := ar_AuthKey (snd (unmarshal_AccountResponse env body AccountResponse_zero)),
                       passkey := ar_PassKey (snd (unmarshal_AccountResponse env body AccountResponse_zero))\<rparr>))"
  by (auto simp: GetAccount_def Let_def GetJSON_def decodeBody_def unmarshal_into_def
           split: sum.splits prod.splits option.splits)

text \<open>
  C9. Whatever GetAccount returns, the client's \<open>db\<close> handle and \<open>loggedIn\<close> flag are
  what they were before the call, and no table of any database has changed. On every error
  \<open>authkey\<close> and \<open>passkey\<close> keep their values; on success they are the two keys of the
  account decoded from the body the probe fetched.
\<close>

theorem GetAccount_restores:
  "GetAccount env w world = (err, w', world') \<Longrightarrow>
     db w' = db w \<and> loggedIn w' = loggedIn w \<and> dbs world' = dbs world
     \<and> (err \<noteq> None \<longrightarrow> authkey w' = authkey w \<and> passkey w' = passkey w)
     \<and> (err = None \<longrightarrow>
          (\<exists>u body. buildURL env (baseURL w) ''ajax.php'' ''index'' [] = Inr u
             \<and> fst (fetchBody env (w\<lparr>db := None, loggedIn := True\<rparr>) u world) = Inr body
             \<and> authkey w' = ar_AuthKey (snd (unmarshal_AccountResponse env body AccountResponse_zero))
             \<and> passkey w' = ar_PassKey (snd (unmarshal_AccountResponse env body AccountResponse_zero))))"
proof -
  assume a: "GetAccount env w world = (err, w', world')"
  have d: "dbs world' = dbs world"
    using GetAccount_dbs [of env w world] a by simp
  from GetAccount_client [OF a] d show ?thesis
    by (cases err) auto
qed

theorem GetAccount_restores_witness:
  "GetAccount demo_env (demo_client\<lparr>db := Some 0, authkey := ''k0'', passkey := ''p0''\<rparr>) demo_world =
     (Some (JsonError ''invalid character''),
      demo_client\<lparr>db := Some 0, authkey := ''k0'', passkey := ''p0''\<rparr>,
      demo_world\<lparr>trace := [HttpDo demo_probe]\<rparr>)
   \<and> db (demo_client\<lparr>db := Some 0, authkey := ''k0'', passkey := ''p0''\<rparr>) = Some 0
   \<and> \<not> loggedIn (demo_client\<lparr>db := Some 0, authkey := ''k0'', passkey := ''p0''\<rparr>)
   \<and> authkey (demo_client\<lparr>db := Some 0, authkey := ''k0'', passkey := ''p0''\<rparr>) = ''k0''
   \<and> passkey (demo_client\<lparr>db := Some 0, authkey := ''k0'', passkey := ''p0''\<rparr>) = ''p0''
   \<and> fst (GetAccount demo_env demo_stored demo_world_session) = None
   \<and> db (fst (snd (GetAccount demo_env demo_stored demo_world_session))) = db demo_stored
   \<and> loggedIn (fst (snd (GetAccount demo_env demo_stored demo_world_session))) = loggedIn demo_stored
   \<and> dbs (snd (snd (GetAccount demo_env demo_stored demo_world_session))) = dbs demo_world_session
   \<and> authkey (fst (snd (GetAccount demo_env demo_stored demo_world_session))) = ''k1''
   \<and> passkey (fst (snd (GetAccount demo_env demo_stored demo_world_session))) = ''p1''"
proof -
  let ?r = "GetAccount demo_env demo_stored demo_world_session"
  have g: "GetAccount demo_env (demo_client\<lparr>db := Some 0, authkey := ''k0'', passkey := ''p0''\<rparr>) demo_world =
     (Some (JsonError ''invalid character''),
      demo_client\<lparr>db := Some 0, authkey := ''k0'', passkey := ''p0''\<rparr>,
      demo_world\<lparr>trace := [HttpDo demo_probe]\<rparr>)"
    by (simp add: GetAccount_def GetJSON_def fetchBody_nodb NewRequest_def doRequest_def
        client_Do_def Header_Set_def decodeBody_def HasPrefix_def demo_probe_def get_request_def
        demo_env_def demo_client_def demo_world_def demo_server_def demo_base_def demo_buildURL_def
        demo_ok_def demo_unmarshal_GenericResponse_def demo_failure_body_def)
  have e: "fst ?r = None"
    by (simp add: GetAccount_def GetJSON_def fetchBody_nodb NewRequest_def doRequest_def
        client_Do_def Header_Set_def decodeBody_def unmarshal_into_def checkResponseStatus_def
        HasPrefix_def demo_stored_def demo_world_session_def
        demo_env_def demo_client_def demo_world_def demo_server_def demo_base_def demo_buildURL_def
        demo_ok_def demo_unmarshal_GenericResponse_def demo_unmarshal_AccountResponse_def
        demo_failure_body_def demo_account_body_def)
  then have g': "?r = (None, fst (snd ?r), snd (snd ?r))"
    by (metis prod.collapse)
  have k: "authkey (fst (snd ?r)) = ''k1''" "passkey (fst (snd ?r)) = ''p1''"
    by (simp_all add: GetAccount_def GetJSON_def fetchBody_nodb NewRequest_def doRequest_def
        client_Do_def Header_Set_def decodeBody_def unmarshal_into_def checkResponseStatus_def
        HasPrefix_def demo_stored_def demo_world_session_def
        demo_env_def demo_client_def demo_world_def demo_server_def demo_base_def demo_buildURL_def
        demo_ok_def demo_unmarshal_GenericResponse_def demo_unmarshal_AccountResponse_def
        demo_failure_body_def demo_account_body_def)
  from GetAccount_restores [OF g] g
  have a: "db (demo_client\<lparr>db := Some 0, authkey := ''k0'', passkey := ''p0''\<rparr>) = Some 0
   \<and> \<not> loggedIn (demo_client\<lparr>db := Some 0, authkey := ''k0'', passkey := ''p0''\<rparr>)
   \<and> authkey (demo_client\<lparr>db := Some 0, authkey := ''k0'', passkey := ''p0''\<rparr>) = ''k0''
   \<and> passkey (demo_client\<lparr>db := Some 0, authkey := ''k0'', passkey := ''p0''\<rparr>) = ''p0''"
    by (simp add: demo_client_def)
  from GetAccount_restores [OF g']
  have b: "db (fst (snd ?r)) = db demo_stored \<and> loggedIn (fst (snd ?r)) = loggedIn demo_stored
           \<and> dbs (snd (snd ?r)) = dbs demo_world_session"
    by blast
  from g a e b k show ?thesis
    by simp
qed

subsection \<open>Decoding\<close>

text \<open>
  C3. When the body that dispatch obtained decodes to an envelope whose status is the
  failure status, GetJSON returns \<open>APIError\<close> with the envelope's error message, for every
  target shape and every decoder of the target, and hands the target back unwritten: the
  target's decoder is not consulted.
\<close>

theorem GetJSON_failure_envelope:
  "loggedIn w \<Longrightarrow> fetchBody env w requestURL world = (Inr body, world') \<Longrightarrow>
   unmarshal_GenericResponse env body = Inr st \<Longrightarrow> gr_Status st = ''failure'' \<Longrightarrow>
     GetJSON env w requestURL shp unm obj world = ((Some (APIError (gr_Error st)), obj), world')"
  by (simp add: GetJSON_def decodeBody_def checkResponseStatus_def)

theorem GetJSON_failure_envelope_witness:
  \<open>loggedIn (demo_client\<lparr>loggedIn := True\<rparr>)
   \<and> fetchBody demo_env (demo_client\<lparr>loggedIn := True\<rparr>) (demo_base @ ''ajax.php?action=artist&id=0'') demo_world =
       (Inr ''{"status":"failure","error":"bad id parameter"}'',
        demo_world\<lparr>trace := [HttpDo \<lparr>Method = ''GET'', URL = demo_base @ ''ajax.php?action=artist&id=0'',
                                  Header = [(''User-Agent'', ''whatapi'')], ReqBody = []\<rparr>]\<rparr>)
   \<and> unmarshal_GenericResponse demo_env ''{"status":"failure","error":"bad id parameter"}'' =
       Inr \<lparr>gr_Status = ''failure'', gr_Error = ''bad id parameter''\<rparr>
   \<and> GetJSON demo_env (demo_client\<lparr>loggedIn := True\<rparr>) (demo_base @ ''ajax.php?action=artist&id=0'')
        ArtistResponse demo_unmarshal_artist ''unwritten'' demo_world =
       ((Some (APIError ''bad id parameter''), ''unwritten''),
        demo_world\<lparr>trace := [HttpDo \<lparr>Method = ''GET'', URL = demo_base @ ''ajax.php?action=artist&id=0'',
                                  Header = [(''User-Agent'', ''whatapi'')], ReqBody = []\<rparr>]\<rparr>)\<close>
proof -
  have l: "loggedIn (demo_client\<lparr>loggedIn := True\<rparr>)"
    by simp
  have f: \<open>fetchBody demo_env (demo_client\<lparr>loggedIn := True\<rparr>) (demo_base @ ''ajax.php?action=artist&id=0'') demo_world =
       (Inr ''{"status":"failure","error":"bad id parameter"}'',
        demo_world\<lparr>trace := [HttpDo \<lparr>Method = ''GET'', URL = demo_base @ ''ajax.php?action=artist&id=0'',
                                  Header = [(''User-Agent'', ''whatapi'')], ReqBody = []\<rparr>]\<rparr>)\<close>
    by (simp add: fetchBody_nodb NewRequest_def doRequest_def client_Do_def Header_Set_def
        demo_env_def demo_client_def demo_world_def demo_server_def demo_base_def demo_ok_def
        demo_failure_body_def)
  have u: \<open>unmarshal_GenericResponse demo_env ''{"status":"failure","error":"bad id parameter"}'' =
       Inr \<lparr>gr_Status = ''failure'', gr_Error = ''bad id parameter''\<rparr>\<close>
    by (simp add: demo_env_def demo_unmarshal_GenericResponse_def demo_failure_body_def)
  from GetJSON_failure_envelope [OF l f u, of ArtistResponse demo_unmarshal_artist "''unwritten''"] l f u
  show ?thesis
    by simp
qed

text \<open>
  C5. With an envelope that passes the status check: if the first decode of an
  \<open>ArtistResponse\<close> fails, GetJSON decodes once more, from the body in which every
  \<^verbatim>\<open>"extendedArtists":false\<close> has become \<^verbatim>\<open>"extendedArtists":{}\<close>, and returns
  what that decode returns, so success when the rewritten body decodes. A
  \<open>TopTenTorrentsResponse\<close> gets its own rewrite, and a first decode that succeeds gets
  none. Every other target is decoded once, from the body as it came.
\<close>

theorem GetJSON_quirk_correction:
  "loggedIn w \<Longrightarrow> fetchBody env w requestURL world = (Inr body, world') \<Longrightarrow>
   unmarshal_GenericResponse env body = Inr st \<Longrightarrow>
   checkResponseStatus (gr_Status st) (gr_Error st) = None \<Longrightarrow>
     (\<forall>m ro. unm body obj = (Some m, ro) \<longrightarrow>
        GetJSON env w requestURL ArtistResponse unm obj world =
          (unmarshal_into unm (ReplaceAll body extendedArtists_false extendedArtists_object) ro, world')
        \<and> (\<forall>ro'. unm (ReplaceAll body extendedArtists_false extendedArtists_object) ro = (None, ro') \<longrightarrow>
              GetJSON env w requestURL ArtistResponse unm obj world = ((None, ro'), world'))
        \<and> GetJSON env w requestURL TopTenTorrentsResponse unm obj world =
          (unmarshal_into unm (ReplaceAll body artist_false artist_empty) ro, world'))
     \<and> (\<forall>ro. unm body obj = (None, ro) \<longrightarrow>
        GetJSON env w requestURL ArtistResponse unm obj world = (unmarshal_into unm body ro, world')
        \<and> GetJSON env w requestURL TopTenTorrentsResponse unm obj world =
            (unmarshal_into unm body ro, world'))
     \<and> GetJSON env w requestURL OtherResponse unm obj world = (unmarshal_into unm body obj, world')"
  by (simp add: GetJSON_def decodeBody_def unmarshal_into_def)

lemma demo_rewrite:
  \<open>ReplaceAll demo_artist_body
      extendedArtists_false extendedArtists_object =
    demo_artist_fixed\<close>
  by (simp add: extendedArtists_false_def extendedArtists_object_def HasPrefix_def
      demo_artist_body_def demo_artist_fixed_def)

lemma demo_Contains1:
  \<open>Contains demo_artist_body extendedArtists_false\<close>
  by (simp add: extendedArtists_false_def HasPrefix_def demo_artist_body_def demo_artist_fixed_def)

lemma demo_Contains2:
  \<open>\<not> Contains demo_artist_fixed extendedArtists_false\<close>
  by (simp add: extendedArtists_false_def HasPrefix_def demo_artist_body_def demo_artist_fixed_def)

theorem GetJSON_quirk_correction_witness:
  \<open>loggedIn (demo_client\<lparr>loggedIn := True\<rparr>)
   \<and> fetchBody demo_env (demo_client\<lparr>loggedIn := True\<rparr>) (demo_base @ ''ajax.php?action=artist&id=7'') demo_world =
       (Inr demo_artist_body,
        demo_world\<lparr>trace := [HttpDo \<lparr>Method = ''GET'', URL = demo_base @ ''ajax.php?action=artist&id=7'',
                                  Header = [(''User-Agent'', ''whatapi'')], ReqBody = []\<rparr>]\<rparr>)
   \<and> unmarshal_GenericResponse demo_env demo_artist_body =
       Inr \<lparr>gr_Status = ''success'', gr_Error = []\<rparr>
   \<and> checkResponseStatus ''success'' [] = None
   \<and> demo_unmarshal_artist demo_artist_body [] =
       (Some ''json: cannot unmarshal bool into Go struct field'', [])
   \<and> GetJSON demo_env (demo_client\<lparr>loggedIn := True\<rparr>) (demo_base @ ''ajax.php?action=artist&id=7'')
        ArtistResponse demo_unmarshal_artist [] demo_world =
       ((None, demo_artist_fixed),
        demo_world\<lparr>trace := [HttpDo \<lparr>Method = ''GET'', URL = demo_base @ ''ajax.php?action=artist&id=7'',
                                  Header = [(''User-Agent'', ''whatapi'')], ReqBody = []\<rparr>]\<rparr>)
   \<and> GetJSON demo_env (demo_client\<lparr>loggedIn := True\<rparr>) (demo_base @ ''ajax.php?action=artist&id=7'')
        OtherResponse demo_unmarshal_artist [] demo_world =
       ((Some (JsonError ''json: cannot unmarshal bool into Go struct field''), []),
        demo_world\<lparr>trace := [HttpDo \<lparr>Method = ''GET'', URL = demo_base @ ''ajax.php?action=artist&id=7'',
                                  Header = [(''User-Agent'', ''whatapi'')], ReqBody = []\<rparr>]\<rparr>)\<close>
proof -
  let ?w = "demo_client\<lparr>loggedIn := True\<rparr>"
  let ?u = "demo_base @ ''ajax.php?action=artist&id=7''"
  have l: "loggedIn ?w"
    by simp
  have f: \<open>fetchBody demo_env ?w ?u demo_world =
       (Inr demo_artist_body,
        demo_world\<lparr>trace := [HttpDo \<lparr>Method = ''GET'', URL = ?u,
                                  Header = [(''User-Agent'', ''whatapi'')], ReqBody = []\<rparr>]\<rparr>)\<close>
    by (simp add: fetchBody_nodb NewRequest_def doRequest_def client_Do_def Header_Set_def
        demo_env_def demo_client_def demo_world_def demo_server_def demo_base_def demo_ok_def
        demo_artist_body_def)
  have u: \<open>unmarshal_GenericResponse demo_env demo_artist_body =
       Inr \<lparr>gr_Status = ''success'', gr_Error = []\<rparr>\<close>
    by (simp add: demo_env_def demo_unmarshal_GenericResponse_def demo_failure_body_def demo_artist_body_def HasPrefix_def)
  have c0: "checkResponseStatus ''success'' [] = None"
    by (simp add: checkResponseStatus_def)
  then have c: "checkResponseStatus (gr_Status \<lparr>gr_Status = ''success'', gr_Error = []\<rparr>)
             (gr_Error \<lparr>gr_Status = ''success'', gr_Error = []\<rparr>) = None"
    by simp
  have d1: \<open>demo_unmarshal_artist demo_artist_body [] =
       (Some ''json: cannot unmarshal bool into Go struct field'', [])\<close>
    by (simp only: demo_unmarshal_artist_def demo_Contains1 if_True)
  have d2: \<open>demo_unmarshal_artist demo_artist_fixed [] =
       (None, demo_artist_fixed)\<close>
    by (simp only: demo_unmarshal_artist_def demo_Contains2 if_False)
  note q = GetJSON_quirk_correction [OF l f u c, of demo_unmarshal_artist "[]"]
  from q d1 have "\<forall>ro'. demo_unmarshal_artist
        (ReplaceAll demo_artist_body
           extendedArtists_false extendedArtists_object) [] = (None, ro') \<longrightarrow>
      GetJSON demo_env ?w ?u ArtistResponse demo_unmarshal_artist [] demo_world =
        ((None, ro'),
         demo_world\<lparr>trace := [HttpDo \<lparr>Method = ''GET'', URL = ?u,
                                  Header = [(''User-Agent'', ''whatapi'')], ReqBody = []\<rparr>]\<rparr>)"
    by blast
  with d2 have g1: \<open>GetJSON demo_env ?w ?u ArtistResponse demo_unmarshal_artist [] demo_world =
        ((None, demo_artist_fixed),
         demo_world\<lparr>trace := [HttpDo \<lparr>Method = ''GET'', URL = ?u,
                                  Header = [(''User-Agent'', ''whatapi'')], ReqBody = []\<rparr>]\<rparr>)\<close>
    by (simp only: demo_rewrite)
  from q have "GetJSON demo_env ?w ?u OtherResponse demo_unmarshal_artist [] demo_world =
       (unmarshal_into demo_unmarshal_artist
          demo_artist_body [],
        demo_world\<lparr>trace := [HttpDo \<lparr>Method = ''GET'', URL = ?u,
                                  Header = [(''User-Agent'', ''whatapi'')], ReqBody = []\<rparr>]\<rparr>)"
    by blast
  then have g2: "GetJSON demo_env ?w ?u OtherResponse demo_unmarshal_artist [] demo_world =
       ((Some (JsonError ''json: cannot unmarshal bool into Go struct field''), []),
        demo_world\<lparr>trace := [HttpDo \<lparr>Method = ''GET'', URL = ?u,
                                  Header = [(''User-Agent'', ''whatapi'')], ReqBody = []\<rparr>]\<rparr>)"
    by (simp only: unmarshal_into_def d1 prod.case option.case)
  from l f u c0 d1 g1 g2 show ?thesis
    by (intro conjI)
qed

subsection \<open>The cache\<close>

lemma query_urlcache_found:
  "sql_query_error env (trace world) = None \<Longrightarrow>
   find (\<lambda>r. fst r = k) (urlcache (dbs world d)) = Some (k', body, ts) \<Longrightarrow>
     query_urlcache env d k world =
       (Inr (body, ts), world\<lparr>trace := trace world @ [SqlQuery d (SelectUrlcache k)]\<rparr>)"
  by (simp add: query_urlcache_def)

lemma query_urlcache_absent:
  "sql_query_error env (trace world) = None \<Longrightarrow>
   find (\<lambda>r. fst r = k) (urlcache (dbs world d)) = None \<Longrightarrow>
     query_urlcache env d k world =
       (Inl ErrNoRows, world\<lparr>trace := trace world @ [SqlQuery d (SelectUrlcache k)]\<rparr>)"
  by (simp add: query_urlcache_def)

lemma updateCache_trace:
  "\<exists>rest. trace (snd (updateCache env w k body world)) = trace world @ rest"
  by (auto simp: updateCache_def db_Exec_def split: option.splits exec_outcome.splits sum.splits)

lemma fetchBody_miss:
  "cachedResponse env w requestURL world = ((b, Some ErrNoRows), world1) \<Longrightarrow>
   parse_ok env requestURL \<Longrightarrow>
     fetchBody env w requestURL world =
       (case doRequest env w \<lparr>Method = ''GET'', URL = requestURL, Header = [], ReqBody = []\<rparr> world1 of
          (Inl e, world2) \<Rightarrow> (Inl e, world2)
        | (Inr fetched, world2) \<Rightarrow>
            (case updateCache env w requestURL fetched world2 of
               (Some e, world3) \<Rightarrow> (Inl e, world3)
             | (None, world3) \<Rightarrow> (Inr fetched, world3)))"
  by (simp add: fetchBody_def NewRequest_def)

lemma fetchBody_miss_trace:
  assumes "cachedResponse env w requestURL world = ((b, Some ErrNoRows), world1)"
    and "parse_ok env requestURL"
  shows "\<exists>rest. trace (snd (fetchBody env w requestURL world)) =
           trace world1 @ [HttpDo (get_request w requestURL)] @ rest"
proof -
  let ?req = "\<lparr>Method = ''GET'', URL = requestURL, Header = [], ReqBody = []\<rparr>"
  obtain r world2 where d: "doRequest env w ?req world1 = (r, world2)"
    by (cases "doRequest env w ?req world1")
  from doRequest_world [OF d]
  have t: "trace world2 = trace world1 @ [HttpDo (get_request w requestURL)]"
    by (simp add: Header_Set_def get_request_def)
  show ?thesis
  proof (cases r)
    case (Inl e)
    with d t show ?thesis
      by (simp add: fetchBody_miss [OF assms])
  next
    case (Inr fetched)
    obtain rest where "trace (snd (updateCache env w requestURL fetched world2)) = trace world2 @ rest"
      using updateCache_trace by blast
    with Inr d t show ?thesis
      by (cases "updateCache env w requestURL fetched world2")
         (auto simp: fetchBody_miss [OF assms] split: option.splits)
  qed
qed

lemma fetchBody_miss_body:
  assumes "cachedResponse env w requestURL world = ((b, Some ErrNoRows), world1)"
    and "parse_ok env requestURL"
    and "fetchBody env w requestURL world = (Inr body, world')"
  shows "fst (doRequest env w \<lparr>Method = ''GET'', URL = requestURL, Header = [], ReqBody = []\<rparr> world1) = Inr body"
  using assms(3)
  by (auto simp: fetchBody_miss [OF assms(1,2)] split: prod.splits sum.splits option.splits)

lemma GetJSON_trace:
  "loggedIn w \<Longrightarrow>
     trace (snd (GetJSON env w requestURL shp unm obj world)) = trace (snd (fetchBody env w requestURL world))"
  by (simp add: GetJSON_world)

text \<open>
  C10. A stored row whose body is NULL or has length zero is reported as
  \<^verbatim>\<open>sql.ErrNoRows\<close> whatever its age, and a dispatch (of a logged-in client, for a
  URL that parses) then sends the GET right after the lookup; a body it goes on with is the
  one that request fetched.
\<close>

theorem cachedResponse_empty_body:
  assumes "db w = Some d"
    and "sql_query_error env (trace world) = None"
    and "find (\<lambda>r. fst r = requestURL) (urlcache (dbs world d)) = Some (k, body, ts)"
    and "body = None \<or> body = Some []"
  shows "cachedResponse env w requestURL world =
           ((None, Some ErrNoRows), world\<lparr>trace := trace world @ [SqlQuery d (SelectUrlcache requestURL)]\<rparr>)
         \<and> (loggedIn w \<and> parse_ok env requestURL \<longrightarrow>
              (\<exists>rest. trace (snd (GetJSON env w requestURL shp unm obj world)) =
                 trace world @ [SqlQuery d (SelectUrlcache requestURL), HttpDo (get_request w requestURL)] @ rest)
              \<and> (\<forall>fetched world'. fetchBody env w requestURL world = (Inr fetched, world') \<longrightarrow>
                    fst (doRequest env w \<lparr>Method = ''GET'', URL = requestURL, Header = [], ReqBody = []\<rparr>
                          (world\<lparr>trace := trace world @ [SqlQuery d (SelectUrlcache requestURL)]\<rparr>)) = Inr fetched))"
proof -
  let ?world1 = "world\<lparr>trace := trace world @ [SqlQuery d (SelectUrlcache requestURL)]\<rparr>"
  have c: "cachedResponse env w requestURL world = ((None, Some ErrNoRows), ?world1)"
    using assms by (auto simp: cachedResponse_def query_urlcache_found)
  show ?thesis
  proof (intro conjI impI allI)
    show "cachedResponse env w requestURL world = ((None, Some ErrNoRows), ?world1)"
      by (rule c)
  next
    assume a: "loggedIn w \<and> parse_ok env requestURL"
    then obtain rest where "trace (snd (fetchBody env w requestURL world)) =
           trace ?world1 @ [HttpDo (get_request w requestURL)] @ rest"
      using fetchBody_miss_trace [OF c] by blast
    with a show "\<exists>rest. trace (snd (GetJSON env w requestURL shp unm obj world)) =
                 trace world @ [SqlQuery d (SelectUrlcache requestURL), HttpDo (get_request w requestURL)] @ rest"
      by (simp add: GetJSON_trace)
  next
    fix fetched world'
    assume "loggedIn w \<and> parse_ok env requestURL"
      and "fetchBody env w requestURL world = (Inr fetched, world')"
    then show "fst (doRequest env w \<lparr>Method = ''GET'', URL = requestURL, Header = [], ReqBody = []\<rparr> ?world1) = Inr fetched"
      using fetchBody_miss_body [OF c] by blast
  qed
qed

lemma demo_empty_row_hyps:
  "db demo_cached = Some 0"
  "sql_query_error demo_env (trace demo_world_empty_row) = None"
  "find (\<lambda>r. fst r = demo_artist_url) (urlcache (dbs demo_world_empty_row 0)) =
     Some (demo_artist_url, Some [], 100000000000)"
  "loggedIn demo_cached"
  "parse_ok demo_env demo_artist_url"
  by (simp_all add: demo_cached_def demo_env_def demo_world_empty_row_def demo_artist_url_def
      demo_base_def)

theorem cachedResponse_empty_body_witness:
  "db demo_cached = Some 0
   \<and> sql_query_error demo_env (trace demo_world_empty_row) = None
   \<and> find (\<lambda>r. fst r = demo_artist_url) (urlcache (dbs demo_world_empty_row 0)) =
       Some (demo_artist_url, Some [], 100000000000)
   \<and> loggedIn demo_cached
   \<and> parse_ok demo_env demo_artist_url
   \<and> cachedResponse demo_env demo_cached demo_artist_url demo_world_empty_row =
       ((None, Some ErrNoRows),
        demo_world_empty_row\<lparr>trace := trace demo_world_empty_row @ [SqlQuery 0 (SelectUrlcache demo_artist_url)]\<rparr>)
   \<and> (\<exists>rest. trace (snd (GetJSON demo_env demo_cached demo_artist_url ArtistResponse
                            demo_unmarshal_artist [] demo_world_empty_row)) =
         trace demo_world_empty_row
         @ [SqlQuery 0 (SelectUrlcache demo_artist_url), HttpDo (get_request demo_cached demo_artist_url)]
         @ rest)"
proof -
  note h = demo_empty_row_hyps
  have e: "Some [] = None \<or> Some [] = Some ([] :: string)"
    by simp
  note t = cachedResponse_empty_body [OF h(1) h(2) h(3) e, of ArtistResponse demo_unmarshal_artist "[]"]
  from t have t1: "cachedResponse demo_env demo_cached demo_artist_url demo_world_empty_row =
       ((None, Some ErrNoRows),
        demo_world_empty_row\<lparr>trace := trace demo_world_empty_row @ [SqlQuery 0 (SelectUrlcache demo_artist_url)]\<rparr>)"
    by (rule conjunct1)
  from t h(4) h(5) have t2: "\<exists>rest. trace (snd (GetJSON demo_env demo_cached demo_artist_url ArtistResponse
                            demo_unmarshal_artist [] demo_world_empty_row)) =
         trace demo_world_empty_row
         @ [SqlQuery 0 (SelectUrlcache demo_artist_url), HttpDo (get_request demo_cached demo_artist_url)]
         @ rest"
    by blast
  from h t1 t2 show ?thesis
    by (intro conjI)
qed

lemma demo_empty_row_run:
  "trace (snd (GetJSON demo_env demo_cached demo_artist_url ArtistResponse
                  demo_unmarshal_artist [] demo_world_empty_row)) =
     [SqlQuery 0 (SelectUrlcache demo_artist_url),
      HttpDo (get_request demo_cached demo_artist_url),
      SqlExec 0 (ReplaceUrlcache demo_artist_url demo_artist_body)]"
  by (simp add: GetJSON_world fetchBody_def cachedResponse_def query_urlcache_def NewRequest_def
      doRequest_def client_Do_def Header_Set_def updateCache_def db_Exec_def get_request_def
      demo_cached_def demo_client_def demo_env_def demo_world_def demo_world_empty_row_def
      demo_artist_url_def demo_base_def demo_server_def demo_ok_def)

text \<open>
  C6 as stated fails: a row whose age is within \<open>cacheFor\<close> but whose body is empty is not
  returned as a hit, and the request goes out.
\<close>

theorem cache_hit_within_ttl_counterexample:
  "urlcache (dbs demo_world_empty_row 0) = [(demo_artist_url, Some [], 100000000000)]
   \<and> row_age demo_env demo_world_empty_row 0 demo_artist_url 100000000000 \<le> cacheFor demo_cached
   \<and> fst (cachedResponse demo_env demo_cached demo_artist_url demo_world_empty_row) =
        (None, Some ErrNoRows)
   \<and> HttpDo (get_request demo_cached demo_artist_url)
        \<in> set (trace (snd (GetJSON demo_env demo_cached demo_artist_url ArtistResponse
                               demo_unmarshal_artist [] demo_world_empty_row)))"
proof (intro conjI)
  show "urlcache (dbs demo_world_empty_row 0) = [(demo_artist_url, Some [], 100000000000)]"
    by (simp add: demo_world_empty_row_def)
  show "row_age demo_env demo_world_empty_row 0 demo_artist_url 100000000000 \<le> cacheFor demo_cached"
    by (simp add: row_age_def after_query_def time_Since_def minDuration_def maxDuration_def
        demo_env_def demo_world_empty_row_def demo_world_def demo_cached_def demo_client_def)
  show "fst (cachedResponse demo_env demo_cached demo_artist_url demo_world_empty_row) =
        (None, Some ErrNoRows)"
    by (simp add: cachedResponse_def query_urlcache_def demo_cached_def demo_env_def
        demo_world_empty_row_def)
  show "HttpDo (get_request demo_cached demo_artist_url)
        \<in> set (trace (snd (GetJSON demo_env demo_cached demo_artist_url ArtistResponse
                               demo_unmarshal_artist [] demo_world_empty_row)))"
    by (simp add: demo_empty_row_run)
qed

text \<open>
  C6, amended. With a store configured and a lookup the driver answers: the lookup reports
  \<^verbatim>\<open>sql.ErrNoRows\<close> when there is no row for the URL and when the row is older than
  \<open>cacheFor\<close>; whenever it reports that, a dispatch (logged in, URL parses) sends the GET
  right after the lookup; a row with a non-empty body that is no older than \<open>cacheFor\<close> is a
  hit, and the dispatch decodes that body with nothing but the lookup in the trace.
\<close>

theorem cachedResponse_ttl:
  assumes "db w = Some d"
    and "sql_query_error env (trace world) = None"
  shows "(find (\<lambda>r. fst r = requestURL) (urlcache (dbs world d)) = None \<longrightarrow>
            cachedResponse env w requestURL world = ((None, Some ErrNoRows), after_query world d requestURL))
         \<and> (\<forall>k body ts.
              find (\<lambda>r. fst r = requestURL) (urlcache (dbs world d)) = Some (k, body, ts)
              \<and> row_age env world d requestURL ts > cacheFor w \<longrightarrow>
                cachedResponse env w requestURL world = ((None, Some ErrNoRows), after_query world d requestURL))
         \<and> (fst (cachedResponse env w requestURL world) = (None, Some ErrNoRows)
              \<and> loggedIn w \<and> parse_ok env requestURL \<longrightarrow>
              (\<exists>rest. trace (snd (GetJSON env w requestURL shp unm obj world)) =
                 trace world @ [SqlQuery d (SelectUrlcache requestURL), HttpDo (get_request w requestURL)] @ rest))
         \<and> (\<forall>k b ts.
              find (\<lambda>r. fst r = requestURL) (urlcache (dbs world d)) = Some (k, Some b, ts)
              \<and> b \<noteq> [] \<and> row_age env world d requestURL ts \<le> cacheFor w \<longrightarrow>
                cachedResponse env w requestURL world = ((Some b, None), after_query world d requestURL)
                \<and> (loggedIn w \<longrightarrow>
                     GetJSON env w requestURL shp unm obj world =
                       (decodeBody env shp unm b obj, after_query world d requestURL)))"
proof (intro conjI impI allI)
  assume "find (\<lambda>r. fst r = requestURL) (urlcache (dbs world d)) = None"
  with assms show "cachedResponse env w requestURL world = ((None, Some ErrNoRows), after_query world d requestURL)"
    by (simp add: cachedResponse_def query_urlcache_absent after_query_def)
next
  fix k body ts
  assume "find (\<lambda>r. fst r = requestURL) (urlcache (dbs world d)) = Some (k, body, ts)
              \<and> row_age env world d requestURL ts > cacheFor w"
  with assms show "cachedResponse env w requestURL world = ((None, Some ErrNoRows), after_query world d requestURL)"
    by (auto simp: cachedResponse_def query_urlcache_found after_query_def row_age_def)
next
  assume a: "fst (cachedResponse env w requestURL world) = (None, Some ErrNoRows)
              \<and> loggedIn w \<and> parse_ok env requestURL"
  have s: "snd (cachedResponse env w requestURL world) = after_query world d requestURL"
    using assms
    by (auto simp: cachedResponse_def query_urlcache_def after_query_def split: option.splits)
  from a s have c: "cachedResponse env w requestURL world =
      ((None, Some ErrNoRows), after_query world d requestURL)"
    by (metis prod.collapse)
  from a obtain rest where "trace (snd (fetchBody env w requestURL world)) =
           trace (after_query world d requestURL) @ [HttpDo (get_request w requestURL)] @ rest"
    using fetchBody_miss_trace [OF c] by blast
  with a show "\<exists>rest. trace (snd (GetJSON env w requestURL shp unm obj world)) =
                 trace world @ [SqlQuery d (SelectUrlcache requestURL), HttpDo (get_request w requestURL)] @ rest"
    by (simp add: GetJSON_trace after_query_def)
next
  fix k b ts
  assume a: "find (\<lambda>r. fst r = requestURL) (urlcache (dbs world d)) = Some (k, Some b, ts)
              \<and> b \<noteq> [] \<and> row_age env world d requestURL ts \<le> cacheFor w"
  with assms show c: "cachedResponse env w requestURL world = ((Some b, None), after_query world d requestURL)"
    by (auto simp: cachedResponse_def query_urlcache_found after_query_def row_age_def)
  assume "loggedIn w"
  with assms c show "GetJSON env w requestURL shp unm obj world =
                       (decodeBody env shp unm b obj, after_query world d requestURL)"
    by (simp add: GetJSON_def fetchBody_def bytes_of_def)
qed

theorem cachedResponse_ttl_witness:
  "db demo_cached = Some 0
   \<and> sql_query_error demo_env (trace demo_world_live_row) = None
   \<and> find (\<lambda>r. fst r = demo_artist_url) (urlcache (dbs demo_world_live_row 0)) =
        Some (demo_artist_url, Some demo_artist_fixed, 100000000000)
   \<and> demo_artist_fixed \<noteq> []
   \<and> row_age demo_env demo_world_live_row 0 demo_artist_url 100000000000 \<le> cacheFor demo_cached
   \<and> loggedIn demo_cached
   \<and> cachedResponse demo_env demo_cached demo_artist_url demo_world_live_row =
        ((Some demo_artist_fixed, None), after_query demo_world_live_row 0 demo_artist_url)
   \<and> GetJSON demo_env demo_cached demo_artist_url ArtistResponse demo_unmarshal_artist [] demo_world_live_row =
        (decodeBody demo_env ArtistResponse demo_unmarshal_artist demo_artist_fixed [],
         after_query demo_world_live_row 0 demo_artist_url)
   \<and> trace (after_query demo_world_live_row 0 demo_artist_url) = [SqlQuery 0 (SelectUrlcache demo_artist_url)]"
proof -
  have h1: "db demo_cached = Some 0"
    by (simp add: demo_cached_def)
  have h2: "sql_query_error demo_env (trace demo_world_live_row) = None"
    by (simp add: demo_env_def)
  have h3: "find (\<lambda>r. fst r = demo_artist_url) (urlcache (dbs demo_world_live_row 0)) =
        Some (demo_artist_url, Some demo_artist_fixed, 100000000000)"
    by (simp add: demo_world_live_row_def)
  have h4: "demo_artist_fixed \<noteq> []"
    by (simp add: demo_artist_fixed_def)
  have h5: "row_age demo_env demo_world_live_row 0 demo_artist_url 100000000000 \<le> cacheFor demo_cached"
    by (simp add: row_age_def after_query_def time_Since_def minDuration_def maxDuration_def
        demo_env_def demo_world_live_row_def demo_world_def demo_cached_def demo_client_def)
  have h6: "loggedIn demo_cached"
    by (simp add: demo_cached_def)
  have h7: "trace (after_query demo_world_live_row 0 demo_artist_url) = [SqlQuery 0 (SelectUrlcache demo_artist_url)]"
    by (simp add: after_query_def demo_world_live_row_def demo_world_def)
  note t = cachedResponse_ttl [OF h1 h2, of demo_artist_url ArtistResponse demo_unmarshal_artist "[]"]
  from t h3 h4 h5 have t1: "cachedResponse demo_env demo_cached demo_artist_url demo_world_live_row =
        ((Some demo_artist_fixed, None), after_query demo_world_live_row 0 demo_artist_url)"
    by blast
  from t h3 h4 h5 h6 have t2: "GetJSON demo_env demo_cached demo_artist_url ArtistResponse demo_unmarshal_artist [] demo_world_live_row =
        (decodeBody demo_env ArtistResponse demo_unmarshal_artist demo_artist_fixed [],
         after_query demo_world_live_row 0 demo_artist_url)"
    by blast
  from h1 h2 h3 h4 h5 h6 t1 t2 h7 show ?thesis
    by (intro conjI)
qed

lemma updateCache_done:
  "db w = Some d \<Longrightarrow> updateCache env w k body world = (None, world') \<Longrightarrow>
     sql_exec env (trace world) = ExecDone (Inr 1)
     \<and> urlcache (dbs world' d) =
          filter (\<lambda>r. fst r \<noteq> k) (urlcache (dbs world d))
          @ [(k, Some body, datetime_now (time_Now env (trace world)))]"
  by (auto simp: updateCache_def db_Exec_def split: exec_outcome.splits sum.splits if_splits)

text \<open>
  C7. With a store configured: after two consecutive writes for one key, of which the second
  returned without error, the table has exactly one row with that key, and it holds the
  second body. A write for which the driver reports a number of affected rows other than 1
  returns the \<open>RowsAffectedError\<close>, and a write that returns without error had exactly one.
\<close>

theorem updateCache_replaces:
  assumes "db w = Some d"
  shows "(updateCache env w k body1 world = (err1, world1)
            \<and> updateCache env w k body2 world1 = (None, world2) \<longrightarrow>
            filter (\<lambda>r. fst r = k) (urlcache (dbs world2 d)) =
              [(k, Some body2, datetime_now (time_Now env (trace world1)))])
         \<and> (\<forall>rows. sql_exec env (trace world) = ExecDone (Inr rows) \<and> rows \<noteq> 1 \<longrightarrow>
              fst (updateCache env w k body1 world) = Some (RowsAffectedError rows))
         \<and> (fst (updateCache env w k body1 world) = None \<longrightarrow>
              sql_exec env (trace world) = ExecDone (Inr 1))"
proof (intro conjI impI allI)
  assume "updateCache env w k body1 world = (err1, world1)
            \<and> updateCache env w k body2 world1 = (None, world2)"
  then have "updateCache env w k body2 world1 = (None, world2)"
    by simp
  from updateCache_done [OF assms this]
  show "filter (\<lambda>r. fst r = k) (urlcache (dbs world2 d)) =
              [(k, Some body2, datetime_now (time_Now env (trace world1)))]"
    by simp
next
  fix rows
  assume "sql_exec env (trace world) = ExecDone (Inr rows) \<and> rows \<noteq> 1"
  with assms show "fst (updateCache env w k body1 world) = Some (RowsAffectedError rows)"
    by (simp add: updateCache_def db_Exec_def)
next
  assume "fst (updateCache env w k body1 world) = None"
  then have "updateCache env w k body1 world = (None, snd (updateCache env w k body1 world))"
    by (metis prod.collapse)
  from updateCache_done [OF assms this]
  show "sql_exec env (trace world) = ExecDone (Inr 1)"
    by simp
qed

theorem updateCache_replaces_witness:
  "db demo_cached = Some 0
   \<and> updateCache demo_env demo_cached demo_artist_url demo_artist_body demo_world =
       (None,
        demo_world\<lparr>dbs := (dbs demo_world)(0 := \<lparr>urlcache = [(demo_artist_url, Some demo_artist_body, 100000000000)],
                                                 cookies = []\<rparr>),
                   trace := [SqlExec 0 (ReplaceUrlcache demo_artist_url demo_artist_body)]\<rparr>)
   \<and> fst (updateCache demo_env demo_cached demo_artist_url demo_artist_fixed
        (demo_world\<lparr>dbs := (dbs demo_world)(0 := \<lparr>urlcache = [(demo_artist_url, Some demo_artist_body, 100000000000)],
                                                 cookies = []\<rparr>),
                    trace := [SqlExec 0 (ReplaceUrlcache demo_artist_url demo_artist_body)]\<rparr>)) = None
   \<and> filter (\<lambda>r. fst r = demo_artist_url)
        (urlcache (dbs (snd (updateCache demo_env demo_cached demo_artist_url demo_artist_fixed
          (demo_world\<lparr>dbs := (dbs demo_world)(0 := \<lparr>urlcache = [(demo_artist_url, Some demo_artist_body, 100000000000)],
                                                 cookies = []\<rparr>),
                    trace := [SqlExec 0 (ReplaceUrlcache demo_artist_url demo_artist_body)]\<rparr>))) 0)) =
       [(demo_artist_url, Some demo_artist_fixed, 101000000000)]
   \<and> sql_exec demo_env_two_rows (trace demo_world) = ExecDone (Inr 2)
   \<and> fst (updateCache demo_env_two_rows demo_cached demo_artist_url demo_artist_body demo_world) =
       Some (RowsAffectedError 2)"
proof -
  let ?world1 = "demo_world\<lparr>dbs := (dbs demo_world)(0 := \<lparr>urlcache = [(demo_artist_url, Some demo_artist_body, 100000000000)],
                                                 cookies = []\<rparr>),
                   trace := [SqlExec 0 (ReplaceUrlcache demo_artist_url demo_artist_body)]\<rparr>"
  have h1: "db demo_cached = Some 0"
    by (simp add: demo_cached_def)
  have u1: "updateCache demo_env demo_cached demo_artist_url demo_artist_body demo_world = (None, ?world1)"
    by (simp add: updateCache_def db_Exec_def datetime_now_def demo_cached_def demo_env_def demo_world_def)
  have u2: "fst (updateCache demo_env demo_cached demo_artist_url demo_artist_fixed ?world1) = None"
    by (simp add: updateCache_def db_Exec_def demo_cached_def demo_env_def)
  then have u2': "updateCache demo_env demo_cached demo_artist_url demo_artist_fixed ?world1 =
      (None, snd (updateCache demo_env demo_cached demo_artist_url demo_artist_fixed ?world1))"
    by (metis prod.collapse)
  have n: "datetime_now (time_Now demo_env (trace ?world1)) = 101000000000"
    by (simp add: datetime_now_def demo_env_def)
  have e: "sql_exec demo_env_two_rows (trace demo_world) = ExecDone (Inr 2)"
    by (simp add: demo_env_two_rows_def)
  from updateCache_replaces [OF h1, of demo_env demo_artist_url demo_artist_body demo_world None ?world1
      demo_artist_fixed "snd (updateCache demo_env demo_cached demo_artist_url demo_artist_fixed ?world1)"]
    u1 u2'
  have t1: "filter (\<lambda>r. fst r = demo_artist_url)
        (urlcache (dbs (snd (updateCache demo_env demo_cached demo_artist_url demo_artist_fixed ?world1)) 0)) =
       [(demo_artist_url, Some demo_artist_fixed, 101000000000)]"
    by (simp only: n)
  from updateCache_replaces [OF h1, of demo_env_two_rows demo_artist_url demo_artist_body demo_world] e
  have t2: "fst (updateCache demo_env_two_rows demo_cached demo_artist_url demo_artist_body demo_world) =
       Some (RowsAffectedError 2)"
    by auto
  from h1 u1 u2 t1 e t2 show ?thesis
    by (intro conjI)
qed

subsection \<open>Login and logout\<close>

lemma GetAccount_success:
  "GetAccount env w world = (None, w', world') \<Longrightarrow> account_probe env w world w' world'"
  unfolding account_probe_def
  by (auto simp: GetAccount_def GetJSON_def fetchBody_nodb NewRequest_def doRequest_def
        client_Do_def decodeBody_def unmarshal_into_def get_request_def Header_Set_def Let_def
      split: sum.splits prod.splits option.splits if_splits)

lemma GetAccount_failure:
  "GetAccount env w world = (Some e, w', world') \<Longrightarrow> w' = w"
  using GetAccount_client [of env w world "Some e" w' world'] by simp

lemma GetAccount_trace:
  "GetAccount env w world = (err, w', world') \<Longrightarrow>
     trace world' = trace world \<or> (\<exists>u. trace world' = trace world @ [HttpDo (get_request w u)])"
proof (cases "buildURL env (baseURL w) ''ajax.php'' ''index'' []")
  case (Inl m)
  assume "GetAccount env w world = (err, w', world')"
  with Inl show ?thesis by (simp add: GetAccount_build_error)
next
  case (Inr u)
  assume a: "GetAccount env w world = (err, w', world')"
  let ?w = "w\<lparr>db := None, loggedIn := True\<rparr>"
  have w: "world' = snd (fetchBody env ?w u world)"
    using GetAccount_world [OF Inr, of world] a by simp
  show ?thesis
  proof (cases "parse_ok env u")
    case True
    then show ?thesis
      using fetchBody_nodb_trace [of ?w env u world] w by (auto simp: get_request_def)
  next
    case False
    then show ?thesis
      using w by (simp add: fetchBody_nodb NewRequest_def)
  qed
qed

lemma is_post_get_request [simp]: "\<not> is_post (HttpDo (get_request w u))"
  by (simp add: is_post_def get_request_def)

lemma is_post_login_request [simp]: "is_post (HttpDo (login_request env w u p))"
  by (simp add: is_post_def login_request_def)

lemma is_post_sql [simp]: "\<not> is_post (SqlQuery d q)" "\<not> is_post (SqlExec d x)"
  by (simp_all add: is_post_def)

lemma saveCookies_success:
  "db w = Some d \<Longrightarrow> saveCookies env w world = (None, world') \<Longrightarrow>
     jar world' = jar world \<and> jar_persisted env w world' d
     \<and> (\<exists>c. trace world' = trace world @ [SqlExec d (ReplaceCookies (baseURL w) c)])"
  by (auto simp: saveCookies_def db_Exec_def jar_persisted_def
           split: sum.splits exec_outcome.splits)

lemma saveCookies_trace:
  "saveCookies env w world = (err, world') \<Longrightarrow>
     trace world' = trace world \<or> (\<exists>d c. trace world' = trace world @ [SqlExec d (ReplaceCookies (baseURL w) c)])"
  by (auto simp: saveCookies_def db_Exec_def split: option.splits sum.splits exec_outcome.splits)

lemma Login_post_success:
  assumes "Login_post env username password w world = (None, w', world')"
  shows "\<exists>world1 world2.
           trace world1 = trace world @ [HttpDo (login_request env w username password)]
           \<and> dbs world1 = dbs world
           \<and> account_probe env (w\<lparr>loggedIn := True\<rparr>) world1 w' world2
           \<and> saveCookies env w' world2 = (None, world')"
  using assms
  by (auto simp: Login_post_def NewRequest_def Header_Set_def login_request_def
           split: sum.splits prod.splits option.splits if_splits
           dest!: client_Do_world GetAccount_success)

lemma Login_post_trace:
  assumes "parse_ok env (baseURL w @ ''login.php'')"
  shows "\<exists>rest. trace (snd (snd (Login_post env username password w world))) =
           trace world @ [HttpDo (login_request env w username password)] @ rest"
proof -
  let ?req = "login_request env w username password"
  obtain r world1 where d: "client_Do env ?req world = (r, world1)"
    by (cases "client_Do env ?req world")
  from client_Do_world [OF d] have t1: "trace world1 = trace world @ [HttpDo ?req]"
    by simp
  have lp: "Login_post env username password w world =
      (case r of
         Inl e \<Rightarrow> (Some e, w, world1)
       | Inr resp \<Rightarrow>
           if \<not> Contains (RequestURL resp) ''index'' then (Some errLoginFailed, w, world1)
           else (case GetAccount env (w\<lparr>loggedIn := True\<rparr>) world1 of
                   (Some e, w2, world2) \<Rightarrow> (Some e, w2, world2)
                 | (None, w2, world2) \<Rightarrow>
                     (case saveCookies env w2 world2 of
                        (err, world3) \<Rightarrow> (err, w2, world3))))"
    using assms d
    by (simp add: Login_post_def NewRequest_def Header_Set_def login_request_def)
  show ?thesis
  proof (cases r)
    case (Inl e)
    with lp t1 show ?thesis by simp
  next
    case (Inr resp)
    show ?thesis
    proof (cases "Contains (RequestURL resp) ''index''")
      case False
      with lp t1 Inr show ?thesis by simp
    next
      case True
      obtain e2 w2 world2 where g: "GetAccount env (w\<lparr>loggedIn := True\<rparr>) world1 = (e2, w2, world2)"
        by (cases "GetAccount env (w\<lparr>loggedIn := True\<rparr>) world1") auto
      from GetAccount_trace [OF g] obtain r2 where t2: "trace world2 = trace world1 @ r2"
        by auto
      show ?thesis
      proof (cases e2)
        case (Some e)
        with lp t1 t2 Inr True g show ?thesis by simp
      next
        case None
        obtain e3 world3 where s: "saveCookies env w2 world2 = (e3, world3)"
          by (cases "saveCookies env w2 world2")
        from saveCookies_trace [OF s] obtain r3 where "trace world3 = trace world2 @ r3"
          by auto
        with lp t1 t2 Inr True g None s show ?thesis by simp
      qed
    qed
  qed
qed

lemma getCookies_world:
  "getCookies env w world = (err, world1) \<Longrightarrow>
     dbs world1 = dbs world
     \<and> (trace world1 = trace world
          \<or> (\<exists>d. trace world1 = trace world @ [SqlQuery d (SelectCookie (baseURL w))]))"
  by (auto simp: getCookies_def query_cookie_def split: option.splits sum.splits prod.splits if_splits)

lemma getCookies_loaded:
  "db w = Some d \<Longrightarrow> sql_query_error env (trace world) = None \<Longrightarrow>
   find (\<lambda>r. fst r = baseURL w) (cookies (dbs world d)) = Some (k, c) \<Longrightarrow>
   unmarshal_cookies env c = Inr cs \<Longrightarrow>
     getCookies env w world =
       (None, world\<lparr>jar := jar_SetCookies env (baseURL w) cs (jar world),
                   trace := trace world @ [SqlQuery d (SelectCookie (baseURL w))]\<rparr>)"
  by (simp add: getCookies_def query_cookie_def)

lemma clearCookies_success:
  "db w = Some d \<Longrightarrow> clearCookies env w world = (None, world') \<Longrightarrow>
     jar world' = cookiejar_New env \<and> jar_persisted env w world' d
     \<and> (\<exists>c. trace world' = trace world @ [SqlExec d (ReplaceCookies (baseURL w) c)])"
  using saveCookies_success [of w d env "world\<lparr>jar := cookiejar_New env\<rparr>" world']
  by (simp add: clearCookies_def)

lemma clearCookies_trace:
  "clearCookies env w world = (err, world') \<Longrightarrow>
     trace world' = trace world
     \<or> (\<exists>d c. trace world' = trace world @ [SqlExec d (ReplaceCookies (baseURL w) c)])"
  using saveCookies_trace [of env w "world\<lparr>jar := cookiejar_New env\<rparr>" err world']
  by (simp add: clearCookies_def)

lemma account_probe_world:
  "account_probe env w world w' world' \<Longrightarrow>
     dbs world' = dbs world \<and> (\<exists>u. trace world' = trace world @ [HttpDo (get_request w u)])
     \<and> loggedIn w' = loggedIn w \<and> db w' = db w \<and> baseURL w' = baseURL w"
  by (auto simp: account_probe_def)

lemma Login_post_success_facts:
  assumes "Login_post env username password w world = (None, w', world')"
  shows "loggedIn w'
         \<and> (\<exists>worldp worldq pre rest.
               account_probe env (w\<lparr>loggedIn := True\<rparr>) worldp w' worldq
               \<and> trace worldp = trace world @ pre \<and> trace world' = trace worldq @ rest)
         \<and> (\<exists>rest. trace world' = trace world @ [HttpDo (login_request env w username password)] @ rest)
         \<and> (\<forall>d. db w = Some d \<longrightarrow> jar_persisted env w' world' d)"
proof -
  from Login_post_success [OF assms] obtain world1 world2 where
    t1: "trace world1 = trace world @ [HttpDo (login_request env w username password)]"
    and p: "account_probe env (w\<lparr>loggedIn := True\<rparr>) world1 w' world2"
    and s: "saveCookies env w' world2 = (None, world')"
    by blast
  from account_probe_world [OF p] obtain u where
    t2: "trace world2 = trace world1 @ [HttpDo (get_request (w\<lparr>loggedIn := True\<rparr>) u)]"
    and l: "loggedIn w'" and d: "db w' = db w"
    by auto
  from saveCookies_trace [OF s] obtain r3 where t3: "trace world' = trace world2 @ r3"
    by auto
  have "\<forall>d. db w = Some d \<longrightarrow> jar_persisted env w' world' d"
    using saveCookies_success [OF _ s] d by simp
  moreover have "\<exists>worldp worldq pre rest.
               account_probe env (w\<lparr>loggedIn := True\<rparr>) worldp w' worldq
               \<and> trace worldp = trace world @ pre \<and> trace world' = trace worldq @ rest"
    using p t1 t3 by blast
  moreover have "\<exists>rest. trace world' = trace world @ [HttpDo (login_request env w username password)] @ rest"
    using t1 t2 t3 by simp
  ultimately show ?thesis
    using l by blast
qed

lemma credentials_posted_append:
  "trace world' = trace world @ rest \<Longrightarrow> credentials_posted world world' = list_ex is_post rest"
  by (simp add: credentials_posted_def)

lemmas demo_run =
  Login_def Login_post_def GetAccount_def GetJSON_def fetchBody_nodb NewRequest_def doRequest_def
  client_Do_def client_Get_def Header_Set_def decodeBody_def unmarshal_into_def checkResponseStatus_def
  getCookies_def saveCookies_def clearCookies_def query_cookie_def db_Exec_def Logout_def
  HasPrefix_def AccountResponse_zero_def
  demo_env_def demo_client_def demo_world_def demo_server_def demo_base_def demo_buildURL_def
  demo_Encode_def demo_ok_def demo_unmarshal_GenericResponse_def demo_unmarshal_AccountResponse_def
  demo_failure_body_def demo_account_body_def

lemmas demo_worlds =
  demo_stored_def demo_world_stale_def demo_world_probed_def demo_world_cleared_def
  demo_probe_def get_request_def after_load_def

text \<open>
  C2 as stated fails: a client whose jar already carries a live session and whose store has
  no cookie record logs in by the probe alone; Login returns without error, and the store
  still has no record of the jar.
\<close>

theorem Login_persists_counterexample:
  "fst (Login demo_env ''alice'' ''secret'' demo_stored demo_world_session) = None
   \<and> jar (snd (snd (Login demo_env ''alice'' ''secret'' demo_stored demo_world_session))) =
        [(''session'', ''s1'')]
   \<and> cookies (dbs (snd (snd (Login demo_env ''alice'' ''secret'' demo_stored demo_world_session))) 0) = []
   \<and> trace (snd (snd (Login demo_env ''alice'' ''secret'' demo_stored demo_world_session))) =
        [SqlQuery 0 (SelectCookie demo_base), HttpDo demo_probe]
   \<and> \<not> jar_persisted demo_env demo_stored
          (snd (snd (Login demo_env ''alice'' ''secret'' demo_stored demo_world_session))) 0"
  by (simp add: demo_run demo_stored_def demo_world_session_def demo_probe_def get_request_def
      jar_persisted_def)

text \<open>
  C2, amended. When Login returns without error, \<open>loggedIn\<close> is set and an account probe
  that succeeded during the call has given \<open>authkey\<close> and \<open>passkey\<close> their values. If the
  credentials were posted during the call, the cookie table of a configured store holds
  exactly one record for the base URL, the serialised current jar. If they were not (the
  saved cookies were enough), no table has changed.
\<close>

theorem Login_success:
  assumes "Login env username password w world = (None, w', world')"
  shows "loggedIn w'
         \<and> (\<exists>wp worldp wq worldq pre rest.
               (wp = w \<or> wp = w\<lparr>loggedIn := True\<rparr>)
               \<and> account_probe env wp worldp wq worldq
               \<and> w' = wq\<lparr>loggedIn := True\<rparr>
               \<and> trace worldp = trace world @ pre \<and> trace world' = trace worldq @ rest)
         \<and> (credentials_posted world world' \<longrightarrow> (\<forall>d. db w = Some d \<longrightarrow> jar_persisted env w' world' d))
         \<and> (\<not> credentials_posted world world' \<longrightarrow> dbs world' = dbs world)"
proof (cases "db w")
  case None
  with assms have lp: "Login_post env username password w world = (None, w', world')"
    by (simp add: Login_def)
  from Login_post_success_facts [OF lp] obtain worldp worldq pre rest rest' where
    l: "loggedIn w'"
    and p: "account_probe env (w\<lparr>loggedIn := True\<rparr>) worldp w' worldq"
    and t: "trace worldp = trace world @ pre" "trace world' = trace worldq @ rest"
    and t': "trace world' = trace world @ [HttpDo (login_request env w username password)] @ rest'"
    by blast
  have posted: "credentials_posted world world'"
    using credentials_posted_append [OF t'] by simp
  from l have "w' = w'\<lparr>loggedIn := True\<rparr>"
    by simp
  with p t have "\<exists>wp worldp wq worldq pre rest.
               (wp = w \<or> wp = w\<lparr>loggedIn := True\<rparr>)
               \<and> account_probe env wp worldp wq worldq
               \<and> w' = wq\<lparr>loggedIn := True\<rparr>
               \<and> trace worldp = trace world @ pre \<and> trace world' = trace worldq @ rest"
    by blast
  with l posted None show ?thesis
    by simp
next
  case (Some d)
  obtain e1 world1 where gc: "getCookies env w world = (e1, world1)"
    by (cases "getCookies env w world")
  obtain e2 w1 world2 where ga: "GetAccount env w world1 = (e2, w1, world2)"
    by (cases "GetAccount env w world1") auto
  from assms Some gc have e1: "e1 = None"
    by (cases e1) (simp_all add: Login_def)
  from getCookies_world [OF gc] obtain r1 where
    d1: "dbs world1 = dbs world" and t1: "trace world1 = trace world @ r1"
    and n1: "\<not> list_ex is_post r1"
    by auto
  show ?thesis
  proof (cases e2)
    case None
    with assms Some gc e1 ga have w': "w' = w1\<lparr>loggedIn := True\<rparr>" and world': "world' = world2"
      by (simp_all add: Login_def)
    from ga None have p: "account_probe env w world1 w1 world2"
      by (simp add: GetAccount_success)
    from account_probe_world [OF p] obtain u where
      d2: "dbs world2 = dbs world1" and t2: "trace world2 = trace world1 @ [HttpDo (get_request w u)]"
      by auto
    have "trace world' = trace world @ (r1 @ [HttpDo (get_request w u)])"
      using t1 t2 world' by simp
    from credentials_posted_append [OF this] n1 have np: "\<not> credentials_posted world world'"
      by simp
    have "trace world' = trace world2 @ []"
      using world' by simp
    with p w' t1 have "\<exists>wp worldp wq worldq pre rest.
               (wp = w \<or> wp = w\<lparr>loggedIn := True\<rparr>)
               \<and> account_probe env wp worldp wq worldq
               \<and> w' = wq\<lparr>loggedIn := True\<rparr>
               \<and> trace worldp = trace world @ pre \<and> trace world' = trace worldq @ rest"
      by blast
    with np w' d1 d2 world' show ?thesis
      by simp
  next
    case (Some e)
    from ga Some have w1: "w1 = w"
      by (simp add: GetAccount_failure)
    obtain e3 world3 where cc: "clearCookies env w world2 = (e3, world3)"
      by (cases "clearCookies env w world2")
    from assms \<open>db w = Some d\<close> gc e1 ga Some w1 cc have e3: "e3 = None"
      by (cases e3) (simp_all add: Login_def)
    with assms \<open>db w = Some d\<close> gc e1 ga Some w1 cc
    have lp: "Login_post env username password w world3 = (None, w', world')"
      by (simp add: Login_def)
    from GetAccount_trace [OF ga] obtain r2 where t2: "trace world2 = trace world1 @ r2"
      by auto
    from clearCookies_trace [OF cc] obtain r3 where t3: "trace world3 = trace world2 @ r3"
      by auto
    from Login_post_success_facts [OF lp] obtain worldp worldq pre rest rest' where
      l: "loggedIn w'"
      and p: "account_probe env (w\<lparr>loggedIn := True\<rparr>) worldp w' worldq"
      and t: "trace worldp = trace world3 @ pre" "trace world' = trace worldq @ rest"
      and t': "trace world' = trace world3 @ [HttpDo (login_request env w username password)] @ rest'"
      and pers: "\<forall>d. db w = Some d \<longrightarrow> jar_persisted env w' world' d"
      by blast
    have "trace world' = trace world @ (r1 @ r2 @ r3 @ [HttpDo (login_request env w username password)] @ rest')"
      using t1 t2 t3 t' by simp
    from credentials_posted_append [OF this] have posted: "credentials_posted world world'"
      by simp
    have tp: "trace worldp = trace world @ (r1 @ r2 @ r3 @ pre)"
      using t1 t2 t3 t by simp
    from l have "w' = w'\<lparr>loggedIn := True\<rparr>"
      by simp
    with p tp t(2) have "\<exists>wp worldp wq worldq pre rest.
               (wp = w \<or> wp = w\<lparr>loggedIn := True\<rparr>)
               \<and> account_probe env wp worldp wq worldq
               \<and> w' = wq\<lparr>loggedIn := True\<rparr>
               \<and> trace worldp = trace world @ pre \<and> trace world' = trace worldq @ rest"
      by blast
    with l posted pers show ?thesis
      by simp
  qed
qed

theorem Login_success_witness:
  "fst (Login demo_env ''alice'' ''secret'' demo_stored demo_world) = None
   \<and> loggedIn (fst (snd (Login demo_env ''alice'' ''secret'' demo_stored demo_world)))
   \<and> authkey (fst (snd (Login demo_env ''alice'' ''secret'' demo_stored demo_world))) = ''k1''
   \<and> passkey (fst (snd (Login demo_env ''alice'' ''secret'' demo_stored demo_world))) = ''p1''
   \<and> credentials_posted demo_world (snd (snd (Login demo_env ''alice'' ''secret'' demo_stored demo_world)))
   \<and> db demo_stored = Some 0
   \<and> jar_persisted demo_env (fst (snd (Login demo_env ''alice'' ''secret'' demo_stored demo_world)))
        (snd (snd (Login demo_env ''alice'' ''secret'' demo_stored demo_world))) 0
   \<and> cookies (dbs (snd (snd (Login demo_env ''alice'' ''secret'' demo_stored demo_world))) 0) =
        [(demo_base, ''session=s1;'')]"
proof -
  let ?r = "Login demo_env ''alice'' ''secret'' demo_stored demo_world"
  have e: "fst ?r = None"
    by (simp add: demo_run demo_stored_def)
  then have g: "?r = (None, fst (snd ?r), snd (snd ?r))"
    by (metis prod.collapse)
  have k: "authkey (fst (snd ?r)) = ''k1''" "passkey (fst (snd ?r)) = ''p1''"
    by (simp_all add: demo_run demo_stored_def)
  have p: "credentials_posted demo_world (snd (snd ?r))"
    by (simp add: demo_run demo_stored_def credentials_posted_def is_post_def)
  have d: "db demo_stored = Some 0"
    by (simp add: demo_stored_def)
  have c: "cookies (dbs (snd (snd ?r)) 0) = [(demo_base, ''session=s1;'')]"
    by (simp add: demo_run demo_stored_def)
  note t = Login_success [OF g]
  from t have l: "loggedIn (fst (snd ?r))"
    by (rule conjunct1)
  from t p d have j: "jar_persisted demo_env (fst (snd ?r)) (snd (snd ?r)) 0"
    by blast
  from e l k p d j c show ?thesis
    by (intro conjI)
qed

text \<open>
  C1 as stated fails: when the transport fails, Logout returns the error and the client is
  still logged in with both keys.
\<close>

theorem Logout_transport_failure_counterexample:
  "fst (Logout demo_env_offline demo_session demo_world) = Some (TransportError ''connection refused'')
   \<and> loggedIn (fst (snd (Logout demo_env_offline demo_session demo_world)))
   \<and> authkey (fst (snd (Logout demo_env_offline demo_session demo_world))) = ''k1''
   \<and> passkey (fst (snd (Logout demo_env_offline demo_session demo_world))) = ''p1''"
  by (simp add: demo_run demo_env_offline_def demo_session_def)

text \<open>
  C1, amended. Logout returns without error exactly when the logout URL was built and the
  GET came back with a response, whatever the response says; then \<open>loggedIn\<close> is false and
  \<open>authkey\<close> and \<open>passkey\<close> are empty. When it returns an error the client is as it was.
\<close>

theorem Logout_invalidates:
  assumes "Logout env w world = (err, w', world')"
  shows "(err = None \<longrightarrow> \<not> loggedIn w' \<and> authkey w' = [] \<and> passkey w' = [])
         \<and> (err \<noteq> None \<longrightarrow> w' = w)
         \<and> (err = None \<longleftrightarrow>
              (\<exists>u resp. buildURL env (baseURL w) ''logout.php'' [] [(''auth'', [authkey w])] = Inr u
                 \<and> fst (client_Get env u world) = Inr resp))"
  using assms
  by (auto simp: Logout_def split: sum.splits prod.splits)

theorem Logout_invalidates_witness:
  "Logout demo_env demo_session demo_world =
     (None,
      demo_session\<lparr>loggedIn := False, authkey := [], passkey := []\<rparr>,
      demo_world\<lparr>trace := [HttpDo \<lparr>Method = ''GET'', URL = demo_base @ ''logout.php?action=&auth=k1'',
                                    Header = [], ReqBody = []\<rparr>]\<rparr>)
   \<and> \<not> loggedIn (demo_session\<lparr>loggedIn := False, authkey := [], passkey := []\<rparr>)
   \<and> authkey (demo_session\<lparr>loggedIn := False, authkey := [], passkey := []\<rparr>) = []
   \<and> passkey (demo_session\<lparr>loggedIn := False, authkey := [], passkey := []\<rparr>) = []"
proof -
  have g: "Logout demo_env demo_session demo_world =
     (None,
      demo_session\<lparr>loggedIn := False, authkey := [], passkey := []\<rparr>,
      demo_world\<lparr>trace := [HttpDo \<lparr>Method = ''GET'', URL = demo_base @ ''logout.php?action=&auth=k1'',
                                    Header = [], ReqBody = []\<rparr>]\<rparr>)"
    by (simp add: demo_run demo_session_def)
  from Logout_invalidates [OF g] g show ?thesis
    by simp
qed

text \<open>
  C8 as stated fails: with a store that answers queries and refuses writes, and a saved
  session the server no longer knows, the probe fails, the empty jar is not persisted (the
  old record stays), and Login returns the store's error without posting the credentials.
\<close>

theorem Login_resume_store_failure_counterexample:
  "db demo_stored = Some 0
   \<and> cookies (dbs demo_world_stale 0) = [(demo_base, ''session=s0;'')]
   \<and> unmarshal_cookies demo_env_store_down ''session=s0;'' = Inr [(''session'', ''s0'')]
   \<and> fst (GetAccount demo_env_store_down demo_stored
            (after_load demo_env_store_down demo_stored 0 [(''session'', ''s0'')] demo_world_stale)) =
        Some (JsonError ''invalid character'')
   \<and> fst (Login demo_env_store_down ''alice'' ''secret'' demo_stored demo_world_stale) =
        Some (SqlError ''attempt to write a readonly database'')
   \<and> trace (snd (snd (Login demo_env_store_down ''alice'' ''secret'' demo_stored demo_world_stale))) =
        [SqlQuery 0 (SelectCookie demo_base), HttpDo demo_probe, SqlExec 0 (ReplaceCookies demo_base [])]
   \<and> \<not> credentials_posted demo_world_stale
          (snd (snd (Login demo_env_store_down ''alice'' ''secret'' demo_stored demo_world_stale)))
   \<and> cookies (dbs (snd (snd (Login demo_env_store_down ''alice'' ''secret'' demo_stored demo_world_stale))) 0) =
        [(demo_base, ''session=s0;'')]"
  by (simp add: demo_run demo_worlds demo_env_store_down_def credentials_posted_def is_post_def)

text \<open>
  C8, amended. With a store that holds a decodable cookie record for the base URL, Login
  loads the record into the jar and then calls the probe, which touches no table. If the
  probe succeeds, Login returns without error with \<open>loggedIn\<close> set, and no POST was sent. If
  the probe fails, the jar is replaced by a new one and the write of its cookies is
  attempted: if that write succeeds the store holds the new jar's cookies and Login goes on
  with the credentials, whose POST is the next request when the login URL parses; if the
  write fails Login returns that error and no POST is sent.
\<close>

theorem Login_resume:
  assumes "db w = Some d"
    and "sql_query_error env (trace world) = None"
    and "find (\<lambda>r. fst r = baseURL w) (cookies (dbs world d)) = Some (k, c)"
    and "unmarshal_cookies env c = Inr cs"
    and "GetAccount env w (after_load env w d cs world) = (err, w1, world2)"
  shows "getCookies env w world = (None, after_load env w d cs world)
         \<and> dbs world2 = dbs world
         \<and> (err = None \<longrightarrow>
              account_probe env w (after_load env w d cs world) w1 world2
              \<and> Login env username password w world = (None, w1\<lparr>loggedIn := True\<rparr>, world2)
              \<and> \<not> credentials_posted world world2)
         \<and> (err \<noteq> None \<longrightarrow>
              (\<forall>e3 world3. clearCookies env w world2 = (e3, world3) \<longrightarrow>
                 jar world3 = cookiejar_New env
                 \<and> (e3 = None \<longrightarrow>
                      jar_persisted env w world3 d
                      \<and> Login env username password w world = Login_post env username password w world3
                      \<and> (parse_ok env (baseURL w @ ''login.php'') \<longrightarrow>
                           (\<exists>rest. trace (snd (snd (Login env username password w world))) =
                              trace world3 @ [HttpDo (login_request env w username password)] @ rest)))
                 \<and> (e3 \<noteq> None \<longrightarrow>
                      Login env username password w world = (e3, w, world3)
                      \<and> \<not> credentials_posted world world3)))"
proof -
  let ?world1 = "after_load env w d cs world"
  have gc: "getCookies env w world = (None, ?world1)"
    using assms(1-4) by (simp add: getCookies_loaded after_load_def)
  have t1: "trace ?world1 = trace world @ [SqlQuery d (SelectCookie (baseURL w))]"
    by (simp add: after_load_def)
  have d2: "dbs world2 = dbs world"
    using GetAccount_dbs [of env w ?world1] assms(5) by (simp add: after_load_def)
  from GetAccount_trace [OF assms(5)] obtain r2 where
    t2: "trace world2 = trace ?world1 @ r2" and n2: "\<not> list_ex is_post r2"
    by auto
  have ok: "err = None \<longrightarrow>
              account_probe env w ?world1 w1 world2
              \<and> Login env username password w world = (None, w1\<lparr>loggedIn := True\<rparr>, world2)
              \<and> \<not> credentials_posted world world2"
  proof
    assume n: "err = None"
    with assms(5) have p: "account_probe env w ?world1 w1 world2"
      by (simp add: GetAccount_success)
    have l: "Login env username password w world = (None, w1\<lparr>loggedIn := True\<rparr>, world2)"
      using assms(1,5) gc n by (simp add: Login_def)
    have "trace world2 = trace world @ (SqlQuery d (SelectCookie (baseURL w)) # r2)"
      using t1 t2 by simp
    from credentials_posted_append [OF this] n2 have "\<not> credentials_posted world world2"
      by simp
    with p l show "account_probe env w ?world1 w1 world2
              \<and> Login env username password w world = (None, w1\<lparr>loggedIn := True\<rparr>, world2)
              \<and> \<not> credentials_posted world world2"
      by simp
  qed
  have bad: "err \<noteq> None \<longrightarrow>
              (\<forall>e3 world3. clearCookies env w world2 = (e3, world3) \<longrightarrow>
                 jar world3 = cookiejar_New env
                 \<and> (e3 = None \<longrightarrow>
                      jar_persisted env w world3 d
                      \<and> Login env username password w world = Login_post env username password w world3
                      \<and> (parse_ok env (baseURL w @ ''login.php'') \<longrightarrow>
                           (\<exists>rest. trace (snd (snd (Login env username password w world))) =
                              trace world3 @ [HttpDo (login_request env w username password)] @ rest)))
                 \<and> (e3 \<noteq> None \<longrightarrow>
                      Login env username password w world = (e3, w, world3)
                      \<and> \<not> credentials_posted world world3))"
  proof (intro impI allI)
    fix e3 world3
    assume f: "err \<noteq> None" and cc: "clearCookies env w world2 = (e3, world3)"
    from f obtain e where e: "err = Some e"
      by auto
    with assms(5) have w1: "w1 = w"
      by (simp add: GetAccount_failure)
    have j: "jar world3 = cookiejar_New env"
      using cc
      by (auto simp: clearCookies_def saveCookies_def db_Exec_def
               split: option.splits sum.splits exec_outcome.splits)
    from clearCookies_trace [OF cc] obtain r3 where
      t3: "trace world3 = trace world2 @ r3" and n3: "\<not> list_ex is_post r3"
      by auto
    have good: "e3 = None \<longrightarrow>
                      jar_persisted env w world3 d
                      \<and> Login env username password w world = Login_post env username password w world3
                      \<and> (parse_ok env (baseURL w @ ''login.php'') \<longrightarrow>
                           (\<exists>rest. trace (snd (snd (Login env username password w world))) =
                              trace world3 @ [HttpDo (login_request env w username password)] @ rest))"
    proof
      assume n: "e3 = None"
      with cc have p: "jar_persisted env w world3 d"
        using clearCookies_success [OF assms(1), of env world2 world3] by simp
      have l: "Login env username password w world = Login_post env username password w world3"
        using assms(1,5) gc e w1 cc n by (simp add: Login_def)
      show "jar_persisted env w world3 d
                      \<and> Login env username password w world = Login_post env username password w world3
                      \<and> (parse_ok env (baseURL w @ ''login.php'') \<longrightarrow>
                           (\<exists>rest. trace (snd (snd (Login env username password w world))) =
                              trace world3 @ [HttpDo (login_request env w username password)] @ rest))"
        using p l Login_post_trace [of env w username password world3] by simp
    qed
    have stop: "e3 \<noteq> None \<longrightarrow>
                      Login env username password w world = (e3, w, world3)
                      \<and> \<not> credentials_posted world world3"
    proof
      assume "e3 \<noteq> None"
      then obtain e' where e': "e3 = Some e'"
        by auto
      have l: "Login env username password w world = (e3, w, world3)"
        using assms(1,5) gc e w1 cc e' by (simp add: Login_def)
      have "trace world3 = trace world @ (SqlQuery d (SelectCookie (baseURL w)) # r2 @ r3)"
        using t1 t2 t3 by simp
      from credentials_posted_append [OF this] n2 n3 have "\<not> credentials_posted world world3"
        by simp
      with l show "Login env username password w world = (e3, w, world3)
                      \<and> \<not> credentials_posted world world3"
        by simp
    qed
    from j good stop show "jar world3 = cookiejar_New env
                 \<and> (e3 = None \<longrightarrow>
                      jar_persisted env w world3 d
                      \<and> Login env username password w world = Login_post env username password w world3
                      \<and> (parse_ok env (baseURL w @ ''login.php'') \<longrightarrow>
                           (\<exists>rest. trace (snd (snd (Login env username password w world))) =
                              trace world3 @ [HttpDo (login_request env w username password)] @ rest)))
                 \<and> (e3 \<noteq> None \<longrightarrow>
                      Login env username password w world = (e3, w, world3)
                      \<and> \<not> credentials_posted world world3)"
      by (intro conjI)
  qed
  from gc d2 ok bad show ?thesis
    by (intro conjI)
qed

theorem Login_resume_witness:
  "db demo_stored = Some 0
   \<and> sql_query_error demo_env (trace demo_world_stale) = None
   \<and> find (\<lambda>r. fst r = baseURL demo_stored) (cookies (dbs demo_world_stale 0)) =
        Some (demo_base, ''session=s0;'')
   \<and> unmarshal_cookies demo_env ''session=s0;'' = Inr [(''session'', ''s0'')]
   \<and> GetAccount demo_env demo_stored
        (after_load demo_env demo_stored 0 [(''session'', ''s0'')] demo_world_stale) =
        (Some (JsonError ''invalid character''), demo_stored, demo_world_probed)
   \<and> clearCookies demo_env demo_stored demo_world_probed = (None, demo_world_cleared)
   \<and> parse_ok demo_env (baseURL demo_stored @ ''login.php'')
   \<and> jar demo_world_cleared = cookiejar_New demo_env
   \<and> jar_persisted demo_env demo_stored demo_world_cleared 0
   \<and> Login demo_env ''alice'' ''secret'' demo_stored demo_world_stale =
        Login_post demo_env ''alice'' ''secret'' demo_stored demo_world_cleared
   \<and> (\<exists>rest. trace (snd (snd (Login demo_env ''alice'' ''secret'' demo_stored demo_world_stale))) =
         trace demo_world_cleared @ [HttpDo (login_request demo_env demo_stored ''alice'' ''secret'')] @ rest)
   \<and> fst (Login demo_env ''alice'' ''secret'' demo_stored demo_world_stale) = None"
proof -
  have h1: "db demo_stored = Some 0"
    by (simp add: demo_stored_def)
  have h2: "sql_query_error demo_env (trace demo_world_stale) = None"
    by (simp add: demo_env_def)
  have h3: "find (\<lambda>r. fst r = baseURL demo_stored) (cookies (dbs demo_world_stale 0)) =
        Some (demo_base, ''session=s0;'')"
    by (simp add: demo_stored_def demo_client_def demo_world_stale_def)
  have h4: "unmarshal_cookies demo_env ''session=s0;'' = Inr [(''session'', ''s0'')]"
    by (simp add: demo_env_def)
  have h5: "GetAccount demo_env demo_stored
        (after_load demo_env demo_stored 0 [(''session'', ''s0'')] demo_world_stale) =
        (Some (JsonError ''invalid character''), demo_stored, demo_world_probed)"
    by (simp add: demo_run demo_worlds)
  have h6: "clearCookies demo_env demo_stored demo_world_probed = (None, demo_world_cleared)"
    by (simp add: demo_run demo_worlds)
  have h7: "parse_ok demo_env (baseURL demo_stored @ ''login.php'')"
    by (simp add: demo_env_def)
  have n: "Some (JsonError ''invalid character'') \<noteq> None"
    by simp
  have f: "fst (Login demo_env ''alice'' ''secret'' demo_stored demo_world_stale) = None"
    by (simp add: demo_run demo_worlds)
  note t = Login_resume [OF h1 h2 h3 h4 h5, of "''alice''" "''secret''"]
  from t n h6 have c1: "jar demo_world_cleared = cookiejar_New demo_env"
    by blast
  from t n h6 have c2: "jar_persisted demo_env demo_stored demo_world_cleared 0"
    by blast
  from t n h6 have c3: "Login demo_env ''alice'' ''secret'' demo_stored demo_world_stale =
        Login_post demo_env ''alice'' ''secret'' demo_stored demo_world_cleared"
    by blast
  from t n h6 h7 have c4: "\<exists>rest. trace (snd (snd (Login demo_env ''alice'' ''secret'' demo_stored demo_world_stale))) =
         trace demo_world_cleared @ [HttpDo (login_request demo_env demo_stored ''alice'' ''secret'')] @ rest"
    by blast
  from h1 h2 h3 h4 h5 h6 h7 c1 c2 c3 c4 f show ?thesis
    by (intro conjI)
qed

end
